theory Spec2Isabelle
  imports Main "HOL-Library.AList"
begin

section \<open>The host lifecycle manager of \<^verbatim>\<open>src/modules/host.py\<close>\<close>

text \<open>
  The module defines one class, \<^verbatim>\<open>HostHandler\<close>, over a MongoDB collection
  \<^verbatim>\<open>db["host"]\<close>, a handful of daemon primitives imported from \<^verbatim>\<open>common\<close> and the
  cluster handler of \<^verbatim>\<open>modules.cluster\<close>. The embedding keeps that shape:
  \<^item> Python values are a datatype \<open>pyval\<close>; a dict is an association list in insertion
    order (\<open>d[k] = v\<close> is \<open>AList.update k v d\<close>, \<open>{}\<close> is \<open>[]\<close>);
  \<^item> the collection is the list of its documents, in insertion order;
  \<^item> every call that leaves the handler (store, daemon primitives, cluster handler,
    thread start) is appended to a trace, so that "no call is made" and "in this order"
    are statements about a list;
  \<^item> a raised exception is \<open>Inl\<close> of a \<open>py_error\<close>; the state reached before the raise
    is returned with it;
  \<^item> the names imported from \<^verbatim>\<open>common\<close> and \<^verbatim>\<open>modules.cluster\<close> are not part of the
    file: they are the fields of a record \<open>env\<close> that every operation takes.
  Logging and the \<^verbatim>\<open>time.sleep\<close> between two thread starts touch neither the store nor
  a collaborator and are left out. A started thread is recorded by its target and
  argument; what the thread does later is outside the handler. Floating-point values do
  not occur in \<open>pyval\<close>. The language is Python 3 (a number and a string do not
  compare); strings are ASCII, so that \<open>length\<close> is \<^verbatim>\<open>len\<close>. Only the operations the
  properties below are about are embedded: \<^verbatim>\<open>list\<close>, \<^verbatim>\<open>refresh_status\<close> and
  \<^verbatim>\<open>get_active_host_by_id\<close> are not.
\<close>

subsection \<open>Python values\<close>

datatype pyval =
    VNone
  | VBool bool
  | VInt int
  | VStr string
  | VList "pyval list"
  | VOid string   \<comment> \<open>a \<^verbatim>\<open>bson.ObjectId\<close>, carried by its \<^verbatim>\<open>str()\<close>\<close>
  | VTime nat     \<comment> \<open>a \<^verbatim>\<open>datetime.datetime\<close>\<close>

datatype py_error = KeyError | TypeError | ValueError | AttributeError | OverflowError

type_synonym doc = "(string \<times> pyval) list"

text \<open>Truth value testing (\<^verbatim>\<open>if x:\<close>, \<^verbatim>\<open>not x\<close>).\<close>

fun py_truthy :: "pyval \<Rightarrow> bool" where
  "py_truthy VNone = False"
| "py_truthy (VBool b) = b"
| "py_truthy (VInt i) = (i \<noteq> 0)"
| "py_truthy (VStr s) = (s \<noteq> [])"
| "py_truthy (VList xs) = (xs \<noteq> [])"
| "py_truthy (VOid x) = True"
| "py_truthy (VTime t) = True"

text \<open>\<^verbatim>\<open>len(x)\<close>: defined on strings and lists, a \<^verbatim>\<open>TypeError\<close> elsewhere.\<close>

fun py_len :: "pyval \<Rightarrow> py_error + nat" where
  "py_len (VStr s) = Inr (length s)"
| "py_len (VList xs) = Inr (length xs)"
| "py_len v = Inl TypeError"

text \<open>\<^verbatim>\<open>for x in v\<close>: the elements of a list, the characters of a string.\<close>

fun py_iter :: "pyval \<Rightarrow> py_error + pyval list" where
  "py_iter (VList xs) = Inr xs"
| "py_iter (VStr s) = Inr (map (\<lambda>c. VStr [c]) s)"
| "py_iter v = Inl TypeError"

text \<open>\<^verbatim>\<open>s.startswith(p)\<close> and \<^verbatim>\<open>p in s\<close> on strings.\<close>

definition startswith :: "string \<Rightarrow> string \<Rightarrow> bool" where
  "startswith s p = (take (length p) s = p)"

fun str_contains :: "string \<Rightarrow> string \<Rightarrow> bool" where
  "str_contains p [] = (p = [])"
| "str_contains p (c # cs) = (startswith (c # cs) p \<or> str_contains p cs)"

text \<open>
  \<^verbatim>\<open>int(x)\<close>. On a string: surrounding white space (tab, line feed, vertical tab, form
  feed, carriage return, space) is dropped, then an optional sign and decimal digits, where
  single underscores may separate digits; anything else is a \<^verbatim>\<open>ValueError\<close>. A bool is
  an int. The other values have no \<^verbatim>\<open>__int__\<close>.
\<close>

definition is_space :: "char \<Rightarrow> bool" where
  "is_space c = (of_char c \<in> {9::nat, 10, 11, 12, 13, 32})"

definition is_digit :: "char \<Rightarrow> bool" where
  "is_digit c = (48 \<le> (of_char c :: nat) \<and> (of_char c :: nat) \<le> 57)"

definition digit_val :: "char \<Rightarrow> nat" where
  "digit_val c = of_char c - 48"

fun parse_digits :: "string \<Rightarrow> nat \<Rightarrow> nat option" where
  "parse_digits [] acc = Some acc"
| "parse_digits [c] acc = (if is_digit c then Some (10 * acc + digit_val c) else None)"
| "parse_digits (c # d # cs) acc =
     (if is_digit c then parse_digits (d # cs) (10 * acc + digit_val c)
      else if c = CHR ''_'' \<and> is_digit d then parse_digits (d # cs) acc
      else None)"

definition parse_unsigned :: "string \<Rightarrow> nat option" where
  "parse_unsigned s =
     (case s of [] \<Rightarrow> None | c # cs \<Rightarrow> if is_digit c then parse_digits s 0 else None)"

definition int_of_str :: "string \<Rightarrow> int option" where
  "int_of_str s =
     (let t = rev (dropWhile is_space (rev (dropWhile is_space s)))
      in case t of
           [] \<Rightarrow> None
         | c # cs \<Rightarrow>
             if c = CHR ''-'' then map_option (\<lambda>n. - int n) (parse_unsigned cs)
             else if c = CHR ''+'' then map_option int (parse_unsigned cs)
             else map_option int (parse_unsigned t))"

fun py_int :: "pyval \<Rightarrow> py_error + int" where
  "py_int (VInt i) = Inr i"
| "py_int (VBool b) = Inr (if b then 1 else 0)"
| "py_int (VStr s) = (case int_of_str s of None \<Rightarrow> Inl ValueError | Some i \<Rightarrow> Inr i)"
| "py_int v = Inl TypeError"

text \<open>
  The left operand of \<^verbatim>\<open>x - n\<close> and of \<^verbatim>\<open>x < n\<close> for an int \<open>n\<close>: ints and bools are
  numbers, every other value raises \<^verbatim>\<open>TypeError\<close>.
\<close>

fun py_num :: "pyval \<Rightarrow> py_error + int" where
  "py_num (VInt i) = Inr i"
| "py_num (VBool b) = Inr (if b then 1 else 0)"
| "py_num v = Inl TypeError"

text \<open>\<^verbatim>\<open>d.get(k)\<close> and \<^verbatim>\<open>d.get(k, '')\<close>.\<close>

definition dict_get :: "doc \<Rightarrow> string \<Rightarrow> pyval" where
  "dict_get d k = (case map_of d k of None \<Rightarrow> VNone | Some v \<Rightarrow> v)"

definition dict_get_default :: "doc \<Rightarrow> string \<Rightarrow> pyval \<Rightarrow> pyval" where
  "dict_get_default d k dflt = (case map_of d k of None \<Rightarrow> dflt | Some v \<Rightarrow> v)"

subsection \<open>The collaborators and the trace\<close>

text \<open>
  \<^verbatim>\<open>check_daemon\<close>, \<^verbatim>\<open>detect_daemon_type\<close>, \<^verbatim>\<open>setup_container_host\<close>,
  \<^verbatim>\<open>reset_container_host\<close>, \<^verbatim>\<open>LOG_TYPES\<close> and \<^verbatim>\<open>LOGGING_LEVEL_CLUSTERS\<close> come from
  \<^verbatim>\<open>common\<close>, \<^verbatim>\<open>find_free_api_ports\<close> from the cluster handler; the n-th ObjectId the
  driver hands out and the clock are the environment's too.
\<close>

record env =
  check_daemon :: "string \<Rightarrow> bool"
  detect_daemon_type :: "string \<Rightarrow> string"
  setup_container_host :: "string \<Rightarrow> string \<Rightarrow> bool"
  reset_container_host :: "pyval \<Rightarrow> pyval \<Rightarrow> bool"
  find_free_api_ports :: "string \<Rightarrow> int \<Rightarrow> int list"
  LOG_TYPES_0 :: string
  LOGGING_LEVEL_CLUSTERS_0 :: string
  new_object_id :: "nat \<Rightarrow> string"
  now :: nat

datatype task =
    CreateClusterWork int   \<comment> \<open>\<^verbatim>\<open>Thread(target=create_cluster_work, args=(port,))\<close>\<close>
  | ClusterDelete pyval     \<comment> \<open>\<^verbatim>\<open>Thread(target=cluster.cluster_handler.delete, args=(cid,))\<close>\<close>

datatype event =
    FindOne doc
  | InsertOne doc
  | FindOneAndUpdate doc doc
  | DeleteOne doc
  | CheckDaemon string
  | DetectDaemonType string
  | SetupContainerHost string string
  | CleanupContainerHost pyval
  | ResetContainerHost pyval pyval
  | FindFreeApiPorts string int
  | StartThread task

fun is_store_call :: "event \<Rightarrow> bool" where
  "is_store_call (FindOne f) = True"
| "is_store_call (InsertOne h) = True"
| "is_store_call (FindOneAndUpdate f u) = True"
| "is_store_call (DeleteOne f) = True"
| "is_store_call e = False"

fun is_store_write :: "event \<Rightarrow> bool" where
  "is_store_write (InsertOne h) = True"
| "is_store_write (FindOneAndUpdate f u) = True"
| "is_store_write (DeleteOne f) = True"
| "is_store_write e = False"

text \<open>
  A call of the cluster provisioner: the port request, or a thread whose target creates or
  deletes a cluster.
\<close>

fun is_provisioner_call :: "event \<Rightarrow> bool" where
  "is_provisioner_call (FindFreeApiPorts h n) = True"
| "is_provisioner_call (StartThread t) = True"
| "is_provisioner_call e = False"

subsection \<open>The store\<close>

record state =
  col :: "doc list"       \<comment> \<open>\<^verbatim>\<open>self.col\<close>, the documents in insertion order\<close>
  next_oid :: nat          \<comment> \<open>how many ObjectIds the driver has handed out\<close>
  trace :: "event list"

definition log_ev :: "event \<Rightarrow> state \<Rightarrow> state" where
  "log_ev e s = s\<lparr>trace := trace s @ [e]\<rparr>"

text \<open>
  An equality filter \<^verbatim>\<open>{k: v, ...}\<close> matches a document that holds \<open>v\<close> under every
  \<open>k\<close> (the filters of this file compare a string or an ObjectId with a stored scalar).
  \<^verbatim>\<open>find_one\<close> returns the first match or \<^verbatim>\<open>None\<close>.
\<close>

definition matches :: "doc \<Rightarrow> doc \<Rightarrow> bool" where
  "matches flt d = list_all (\<lambda>(k, v). map_of d k = Some v) flt"

definition find_one :: "doc \<Rightarrow> doc list \<Rightarrow> doc option" where
  "find_one flt c = List.find (matches flt) c"

text \<open>\<^verbatim>\<open>{"$set": kv}\<close> applied to one document.\<close>

fun set_fields :: "doc \<Rightarrow> doc \<Rightarrow> doc" where
  "set_fields [] d = d"
| "set_fields ((k, v) # kv) d = set_fields kv (AList.update k v d)"

fun update_first :: "doc \<Rightarrow> doc \<Rightarrow> doc list \<Rightarrow> doc list" where
  "update_first flt kv [] = []"
| "update_first flt kv (d # ds) =
     (if matches flt d then set_fields kv d # ds else d # update_first flt kv ds)"

fun delete_first :: "doc \<Rightarrow> doc list \<Rightarrow> doc list" where
  "delete_first flt [] = []"
| "delete_first flt (d # ds) = (if matches flt d then ds else d # delete_first flt ds)"

text \<open>
  What the driver can encode. BSON holds an int in 8 bytes: a document with an int
  outside \<open>-2\<^sup>6\<^sup>3 \<dots> 2\<^sup>6\<^sup>3 - 1\<close> anywhere in it, also inside a list, makes the driver raise
  \<^verbatim>\<open>OverflowError\<close>, and nothing is stored. Every other value of \<open>pyval\<close> encodes.
\<close>

fun bson_encodable :: "pyval \<Rightarrow> bool" where
  "bson_encodable (VInt i) = (- (2 ^ 63) \<le> i \<and> i < 2 ^ 63)"
| "bson_encodable (VList xs) = list_all bson_encodable xs"
| "bson_encodable v = True"

definition doc_encodable :: "doc \<Rightarrow> bool" where
  "doc_encodable d = list_all (\<lambda>(k, v). bson_encodable v) d"

text \<open>
  \<^verbatim>\<open>self.col.find_one(flt)\<close>, \<^verbatim>\<open>self.col.insert_one(h).inserted_id\<close> (the driver adds
  the \<^verbatim>\<open>_id\<close>, then encodes the document, and raises \<^verbatim>\<open>OverflowError\<close> without storing
  when it cannot), \<^verbatim>\<open>self.col.find_one_and_update(flt, {"$set": kv},
  return_document=...)\<close> (the document after the update when \<open>after\<close>, before it
  otherwise) and \<^verbatim>\<open>self.col.delete_one(flt)\<close>. The filters and the \<^verbatim>\<open>$set\<close> documents
  that the handler sends hold strings, ObjectIds and booleans only, which always encode;
  \<^verbatim>\<open>insert_one\<close> is the one call that sends values of the caller.
\<close>

definition col_find_one :: "doc \<Rightarrow> state \<Rightarrow> doc option \<times> state" where
  "col_find_one flt s = (find_one flt (col s), log_ev (FindOne flt) s)"

definition col_insert_one :: "env \<Rightarrow> doc \<Rightarrow> state \<Rightarrow> (py_error + string) \<times> state" where
  "col_insert_one E h s =
     (let oid = new_object_id E (next_oid s);
          s' = log_ev (InsertOne h) (s\<lparr>next_oid := Suc (next_oid s)\<rparr>)
      in if \<not> doc_encodable h then (Inl OverflowError, s')
         else (Inr oid, s'\<lparr>col := col s @ [AList.update ''_id'' (VOid oid) h]\<rparr>))"

definition col_find_one_and_update :: "doc \<Rightarrow> doc \<Rightarrow> bool \<Rightarrow> state \<Rightarrow> doc option \<times> state" where
  "col_find_one_and_update flt kv after s =
     (let found = find_one flt (col s)
      in (if after then map_option (set_fields kv) found else found,
          log_ev (FindOneAndUpdate flt kv) (s\<lparr>col := update_first flt kv (col s)\<rparr>)))"

definition col_delete_one :: "doc \<Rightarrow> state \<Rightarrow> state" where
  "col_delete_one flt s = log_ev (DeleteOne flt) (s\<lparr>col := delete_first flt (col s)\<rparr>)"

subsection \<open>The handler\<close>

text \<open>
  \<^verbatim>\<open>_serialize(doc, keys)\<close> with its default \<open>keys\<close>; \<open>doc\<close> is \<^verbatim>\<open>None\<close> when the store
  found nothing.
\<close>

definition serialize_keys :: "string list" where
  "serialize_keys =
     [''id'', ''name'', ''daemon_url'', ''capacity'', ''type'', ''create_ts'', ''status'',
      ''schedulable'', ''clusters'', ''log_level'', ''log_type'', ''log_server'']"

definition serialize :: "doc option \<Rightarrow> doc" where
  "serialize doc =
     (case doc of
        None \<Rightarrow> []
      | Some d \<Rightarrow>
          if d = [] then []
          else map (\<lambda>k. (k, dict_get_default d k (VStr []))) serialize_keys)"

definition db_update_one :: "doc \<Rightarrow> doc \<Rightarrow> bool \<Rightarrow> state \<Rightarrow> doc \<times> state" where
  "db_update_one flt kv after s =
     (case col_find_one_and_update flt kv after s of (d, s') \<Rightarrow> (serialize d, s'))"

text \<open>
  \<^verbatim>\<open>def db_set_by_id(self, id, **kwargs)\<close> takes no positional argument after \<open>id\<close>: a
  call that passes one raises \<^verbatim>\<open>TypeError\<close> before the body runs. \<open>args\<close> are the
  positional arguments of the call after \<open>id\<close>, \<open>kwargs\<close> its keyword arguments.
\<close>

definition db_set_by_id ::
  "string \<Rightarrow> doc list \<Rightarrow> doc \<Rightarrow> state \<Rightarrow> (py_error + doc) \<times> state" where
  "db_set_by_id host_id args kwargs s =
     (if args \<noteq> [] then (Inl TypeError, s)
      else case db_update_one [(''id'', VStr host_id)] kwargs True s of
             (h, s') \<Rightarrow> (Inr h, s'))"

definition get_by_id :: "string \<Rightarrow> state \<Rightarrow> doc \<times> state" where
  "get_by_id host_id s =
     (case col_find_one [(''id'', VStr host_id)] s of
        (ins, s') \<Rightarrow>
          (case ins of
             None \<Rightarrow> ([], s')
           | Some d \<Rightarrow> if d = [] then ([], s') else (serialize ins, s')))"

definition is_active :: "string \<Rightarrow> state \<Rightarrow> bool \<times> state" where
  "is_active host_id s =
     (case get_by_id host_id s of
        (host, s') \<Rightarrow>
          if host = [] then (False, s')
          else (dict_get host ''status'' = VStr ''active'', s'))"

text \<open>The decorator \<^verbatim>\<open>check_status\<close>.\<close>

definition check_status ::
  "(string \<Rightarrow> state \<Rightarrow> (py_error + bool) \<times> state) \<Rightarrow>
   string \<Rightarrow> state \<Rightarrow> (py_error + bool) \<times> state" where
  "check_status func host_id s =
     (case is_active host_id s of
        (a, s') \<Rightarrow> if \<not> a then (Inr False, s') else func host_id s')"

text \<open>The iterations \<^verbatim>\<open>for x in xs: Thread(target=..., args=(x,)).start()\<close>.\<close>

fun start_threads :: "task list \<Rightarrow> state \<Rightarrow> state" where
  "start_threads [] s = s"
| "start_threads (t # ts) s = start_threads ts (log_ev (StartThread t) s)"

definition fillup_body :: "env \<Rightarrow> string \<Rightarrow> state \<Rightarrow> (py_error + bool) \<times> state" where
  "fillup_body E host_id s =
     (case get_by_id host_id s of
        (host, s1) \<Rightarrow>
          if host = [] then (Inr False, s1)
          else
            (case py_len (dict_get host ''clusters'') of
               Inl e \<Rightarrow> (Inl e, s1)
             | Inr n \<Rightarrow>
                 (case py_num (dict_get host ''capacity'') of
                    Inl e \<Rightarrow> (Inl e, s1)
                  | Inr c \<Rightarrow>
                      let num_new = c - int n
                      in if num_new \<le> 0 then (Inr True, s1)
                         else
                           let free_ports = find_free_api_ports E host_id num_new;
                               s2 = log_ev (FindFreeApiPorts host_id num_new) s1
                           in (Inr True,
                               start_threads (map CreateClusterWork free_ports) s2))))"

definition fillup :: "env \<Rightarrow> string \<Rightarrow> state \<Rightarrow> (py_error + bool) \<times> state" where
  "fillup E = check_status (fillup_body E)"

definition clean_body :: "string \<Rightarrow> state \<Rightarrow> (py_error + bool) \<times> state" where
  "clean_body host_id s =
     (case get_by_id host_id s of
        (host, s1) \<Rightarrow>
          if host = [] then (Inr False, s1)
          else
            (case py_len (dict_get host ''clusters'') of
               Inl e \<Rightarrow> (Inl e, s1)
             | Inr n \<Rightarrow>
                 if n \<le> 0 then (Inr True, s1)
                 else
                   (case db_set_by_id host_id [] [(''schedulable'', VBool False)] s1 of
                      (Inl e, s2) \<Rightarrow> (Inl e, s2)
                    | (Inr host', s2) \<Rightarrow>
                        (case py_iter (dict_get host' ''clusters'') of
                           Inl e \<Rightarrow> (Inl e, s2)
                         | Inr cids \<Rightarrow>
                             (case db_set_by_id host_id [] [(''schedulable'', VBool True)]
                                     (start_threads (map ClusterDelete cids) s2) of
                                (Inl e, s3) \<Rightarrow> (Inl e, s3)
                              | (Inr h, s3) \<Rightarrow> (Inr True, s3))))))"

definition clean :: "string \<Rightarrow> state \<Rightarrow> (py_error + bool) \<times> state" where
  "clean = check_status clean_body"

definition reset_body :: "env \<Rightarrow> string \<Rightarrow> state \<Rightarrow> (py_error + bool) \<times> state" where
  "reset_body E host_id s =
     (case get_by_id host_id s of
        (host, s1) \<Rightarrow>
          if host = [] then (Inr False, s1)
          else
            (case py_len (dict_get host ''clusters'') of
               Inl e \<Rightarrow> (Inl e, s1)
             | Inr n \<Rightarrow>
                 if n > 0 then (Inr False, s1)
                 else
                   (Inr (reset_container_host E (dict_get host ''type'')
                           (dict_get host ''daemon_url'')),
                    log_ev (ResetContainerHost (dict_get host ''type'')
                              (dict_get host ''daemon_url'')) s1)))"

definition reset :: "env \<Rightarrow> string \<Rightarrow> state \<Rightarrow> (py_error + bool) \<times> state" where
  "reset E = check_status (reset_body E)"

definition delete :: "string \<Rightarrow> state \<Rightarrow> bool \<times> state" where
  "delete host_id s =
     (case get_by_id host_id s of
        (h, s1) \<Rightarrow>
          if h = [] then (False, s1)
          else if py_truthy (dict_get_default h ''clusters'' (VStr [])) then (False, s1)
          else
            (True,
             col_delete_one [(''id'', VStr host_id)]
               (log_ev (CleanupContainerHost (dict_get h ''daemon_url'')) s1)))"

text \<open>
  \<^verbatim>\<open>create\<close>. The arguments are typed as its docstring and its body use them: \<open>name\<close>,
  \<open>daemon_url\<close> and the log settings are strings, \<open>capacity\<close> is a number, \<open>fillup\<close>
  and \<open>serialization\<close> are flags; \<open>schedulable\<close> is stored without being looked at and
  stays an arbitrary value.
\<close>

definition create ::
  "env \<Rightarrow> string \<Rightarrow> string \<Rightarrow> int \<Rightarrow> string \<Rightarrow> string \<Rightarrow> string \<Rightarrow> bool \<Rightarrow> pyval \<Rightarrow> bool \<Rightarrow>
   state \<Rightarrow> (py_error + doc) \<times> state" where
  "create E name daemon_url capacity log_level log_type log_server fillup_flag schedulable
     serialization s =
     (let daemon_url =
            (if \<not> startswith daemon_url ''tcp://'' then ''tcp://'' @ daemon_url
             else daemon_url)
      in case col_find_one [(''daemon_url'', VStr daemon_url)] s of
           (Some existing, s1) \<Rightarrow> (Inr [], s1)
         | (None, s1) \<Rightarrow>
            (let log_server =
                   (if \<not> str_contains ''://'' log_server then ''udp://'' @ log_server
                    else log_server);
                 log_server = (if log_type = LOG_TYPES_0 E then [] else log_server);
                 status = (if check_daemon E daemon_url then ''active'' else ''inactive'');
                 s2 = log_ev (CheckDaemon daemon_url) s1;
                 detected_type = detect_daemon_type E daemon_url;
                 s3 = log_ev (DetectDaemonType daemon_url) s2;
                 s4 = log_ev (SetupContainerHost detected_type daemon_url) s3
             in if \<not> setup_container_host E detected_type daemon_url then (Inr [], s4)
                else
                  let h = [(''name'', VStr name),
                           (''daemon_url'', VStr daemon_url),
                           (''create_ts'', VTime (now E)),
                           (''capacity'', VInt capacity),
                           (''status'', VStr status),
                           (''clusters'', VList []),
                           (''type'', VStr detected_type),
                           (''log_level'', VStr log_level),
                           (''log_type'', VStr log_type),
                           (''log_server'', VStr log_server),
                           (''schedulable'', schedulable)]
                  in (case col_insert_one E h s4 of
                        (Inl e, s5) \<Rightarrow> (Inl e, s5)
                      | (Inr hid, s5) \<Rightarrow>
                          (case db_update_one [(''_id'', VOid hid)] [(''id'', VStr hid)] True s5 of
                             (host, s6) \<Rightarrow>
                               let ret = (if serialization then serialize (Some host) else host)
                               in if capacity > 0 \<and> fillup_flag then
                                    (case fillup E hid s6 of
                                       (Inl e, s7) \<Rightarrow> (Inl e, s7)
                                     | (Inr b, s7) \<Rightarrow> (Inr ret, s7))
                                  else (Inr ret, s6)))))"

text \<open>\<^verbatim>\<open>create(name, daemon_url)\<close> with every default of the signature.\<close>

definition create_default :: "env \<Rightarrow> string \<Rightarrow> string \<Rightarrow> state \<Rightarrow> (py_error + doc) \<times> state" where
  "create_default E name daemon_url =
     create E name daemon_url 1 (LOGGING_LEVEL_CLUSTERS_0 E) (LOG_TYPES_0 E) [] False
       (VStr ''false'') True"

text \<open>
  \<^verbatim>\<open>update(id, d)\<close> writes into the caller's dict \<open>d\<close>, so the dict as the call leaves it
  is returned beside the result and the state. The four helpers are the statements of
  lines 142-143, 145-146, 147 and 150-151.
\<close>

definition upd_daemon_url :: "doc \<Rightarrow> py_error + doc" where
  "upd_daemon_url d =
     (case map_of d ''daemon_url'' of
        None \<Rightarrow> Inr d
      | Some (VStr u) \<Rightarrow>
          Inr (if \<not> startswith u ''tcp://''
               then AList.update ''daemon_url'' (VStr (''tcp://'' @ u)) d else d)
      | Some v \<Rightarrow> Inl AttributeError)"

definition upd_capacity :: "doc \<Rightarrow> py_error + doc" where
  "upd_capacity d =
     (case map_of d ''capacity'' of
        None \<Rightarrow> Inr d
      | Some v \<Rightarrow>
          (case py_int v of
             Inl e \<Rightarrow> Inl e
           | Inr i \<Rightarrow> Inr (AList.update ''capacity'' (VInt i) d)))"

definition capacity_too_small :: "doc \<Rightarrow> doc \<Rightarrow> py_error + bool" where
  "capacity_too_small d h_old =
     (case map_of d ''capacity'' of
        None \<Rightarrow> Inl KeyError
      | Some v \<Rightarrow>
          (case py_len (dict_get h_old ''clusters'') of
             Inl e \<Rightarrow> Inl e
           | Inr n \<Rightarrow>
               (case py_num v of
                  Inl e \<Rightarrow> Inl e
                | Inr c \<Rightarrow> Inr (c < int n))))"

definition upd_log_server :: "doc \<Rightarrow> py_error + doc" where
  "upd_log_server d =
     (case map_of d ''log_server'' of
        None \<Rightarrow> Inr d
      | Some (VStr ls) \<Rightarrow>
          Inr (if \<not> str_contains ''://'' ls
               then AList.update ''log_server'' (VStr (''udp://'' @ ls)) d else d)
      | Some (VList xs) \<Rightarrow> if VStr ''://'' \<in> set xs then Inr d else Inl TypeError
      | Some v \<Rightarrow> Inl TypeError)"

definition update ::
  "env \<Rightarrow> string \<Rightarrow> doc \<Rightarrow> state \<Rightarrow> (py_error + doc) \<times> doc \<times> state" where
  "update E host_id d s =
     (case get_by_id host_id s of
        (h_old, s1) \<Rightarrow>
          if h_old = [] then (Inr [], d, s1)
          else
            (case upd_daemon_url d of
               Inl e \<Rightarrow> (Inl e, d, s1)
             | Inr d1 \<Rightarrow>
                 (case upd_capacity d1 of
                    Inl e \<Rightarrow> (Inl e, d1, s1)
                  | Inr d2 \<Rightarrow>
                      (case capacity_too_small d2 h_old of
                         Inl e \<Rightarrow> (Inl e, d2, s1)
                       | Inr small \<Rightarrow>
                           if small then (Inr [], d2, s1)
                           else
                             (case upd_log_server d2 of
                                Inl e \<Rightarrow> (Inl e, d2, s1)
                              | Inr d3 \<Rightarrow>
                                  let d4 = (if map_of d3 ''log_type'' =
                                               Some (VStr (LOG_TYPES_0 E))
                                            then AList.update ''log_server'' (VStr []) d3
                                            else d3)
                                  in (case db_set_by_id host_id [d4] [] s1 of
                                        (Inl e, s2) \<Rightarrow> (Inl e, d4, s2)
                                      | (Inr h_new, s2) \<Rightarrow>
                                          (Inr (serialize (Some h_new)), d4, s2)))))))"

subsection \<open>Vocabulary of the properties\<close>

text \<open>
  The rule that lines 64-65 of \<^verbatim>\<open>create\<close> and lines 142-143 of \<^verbatim>\<open>update\<close> apply to a
  daemon address, and the filter \<^verbatim>\<open>{"id": id}\<close> that every lookup by id uses.
\<close>

definition normalize_daemon_url :: "string \<Rightarrow> string" where
  "normalize_daemon_url u = (if \<not> startswith u ''tcp://'' then ''tcp://'' @ u else u)"

abbreviation id_filter :: "string \<Rightarrow> doc" where
  "id_filter host_id \<equiv> [(''id'', VStr host_id)]"

text \<open>
  The driver never hands out an ObjectId twice: the next one is neither the \<^verbatim>\<open>_id\<close> nor
  the \<^verbatim>\<open>id\<close> of a stored document.
\<close>

definition object_id_fresh :: "env \<Rightarrow> state \<Rightarrow> bool" where
  "object_id_fresh E s =
     (let oid = new_object_id E (next_oid s)
      in list_all (\<lambda>d. map_of d ''_id'' \<noteq> Some (VOid oid) \<and> map_of d ''id'' \<noteq> Some (VStr oid))
           (col s))"

subsection \<open>An example environment and example stores\<close>

text \<open>
  Concrete inputs on which the properties below are run: collaborators that all succeed
  (and a variant whose host setup fails), a host document as \<^verbatim>\<open>create\<close> writes it, and
  the store that holds a given list of documents.
\<close>

definition env_ok :: env where
  "env_ok =
     \<lparr>check_daemon = (\<lambda>u. True),
      detect_daemon_type = (\<lambda>u. ''docker''),
      setup_container_host = (\<lambda>t u. True),
      reset_container_host = (\<lambda>t u. True),
      find_free_api_ports = (\<lambda>h n. map (\<lambda>k. 7050 + int k) [0..<nat n]),
      LOG_TYPES_0 = ''local'',
      LOGGING_LEVEL_CLUSTERS_0 = ''DEBUG'',
      new_object_id = (\<lambda>n. replicate (Suc n) (CHR ''a'')),
      now = 0\<rparr>"

definition env_setup_fails :: env where
  "env_setup_fails = env_ok\<lparr>setup_container_host := (\<lambda>t u. False)\<rparr>"

definition host_doc :: "string \<Rightarrow> string \<Rightarrow> int \<Rightarrow> pyval list \<Rightarrow> doc" where
  "host_doc hid status cap cls =
     [(''name'', VStr ''host''),
      (''daemon_url'', VStr ''tcp://10.0.0.1:2375''),
      (''create_ts'', VTime 0),
      (''capacity'', VInt cap),
      (''status'', VStr status),
      (''clusters'', VList cls),
      (''type'', VStr ''docker''),
      (''log_level'', VStr ''DEBUG''),
      (''log_type'', VStr ''local''),
      (''log_server'', VStr []),
      (''schedulable'', VStr ''false''),
      (''_id'', VOid hid),
      (''id'', VStr hid)]"

definition store_of :: "doc list \<Rightarrow> state" where
  "store_of c = \<lparr>col = c, next_oid = length c, trace = []\<rparr>"

section \<open>Properties\<close>

subsection \<open>The store and the serializer\<close>

lemma matches_single: "matches [(k, v)] d = (map_of d k = Some v)"
  by (simp add: matches_def)

lemma find_one_Some: "find_one flt c = Some d \<Longrightarrow> matches flt d \<and> d \<in> set c"
  by (auto simp: find_one_def find_Some_iff)

lemma find_one_append:
  "find_one flt (c @ [d]) =
     (case find_one flt c of Some x \<Rightarrow> Some x | None \<Rightarrow> if matches flt d then Some d else None)"
  by (induction c) (auto simp: find_one_def)

lemma update_first_append:
  "find_one flt c = None \<Longrightarrow>
   update_first flt kv (c @ [d]) = c @ [if matches flt d then set_fields kv d else d]"
  by (induction c) (auto simp: find_one_def split: if_splits)

lemma find_one_update_first:
  "find_one flt c = Some h \<Longrightarrow> matches flt (set_fields kv h) \<Longrightarrow>
   find_one flt (update_first flt kv c) = Some (set_fields kv h)"
  by (induction c) (auto simp: find_one_def split: if_splits)

lemma delete_first_remove1: "find_one flt c = Some h \<Longrightarrow> delete_first flt c = remove1 h c"
proof (induction c)
  case Nil
  then show ?case by (simp add: find_one_def)
next
  case (Cons d c)
  show ?case
  proof (cases "matches flt d")
    case True
    with Cons.prems show ?thesis by (simp add: find_one_def)
  next
    case False
    with Cons.prems have rest: "find_one flt c = Some h" by (simp add: find_one_def)
    from find_one_Some [OF rest] False have "d \<noteq> h" by auto
    with False Cons.IH [OF rest] show ?thesis by simp
  qed
qed

lemma serialize_Some:
  "d \<noteq> [] \<Longrightarrow> serialize (Some d) = map (\<lambda>k. (k, dict_get_default d k (VStr []))) serialize_keys"
  by (simp add: serialize_def)

lemma serialize_nonempty: "d \<noteq> [] \<Longrightarrow> serialize (Some d) \<noteq> []"
  by (simp add: serialize_Some serialize_keys_def)

lemma map_of_tabulate: "map_of (map (\<lambda>k. (k, f k)) ks) k = (if k \<in> set ks then Some (f k) else None)"
  by (induction ks) auto

lemma dict_get_serialize:
  "d \<noteq> [] \<Longrightarrow> k \<in> set serialize_keys \<Longrightarrow>
   dict_get (serialize (Some d)) k = dict_get_default d k (VStr [])"
  by (simp add: serialize_Some dict_get_def map_of_tabulate)

lemma serialize_idem: "serialize (Some (serialize (Some d))) = serialize (Some d)"
proof (cases "d = []")
  case True
  then show ?thesis by (simp add: serialize_def)
next
  case False
  have "dict_get_default (serialize (Some d)) k (VStr []) = dict_get_default d k (VStr [])"
    if "k \<in> set serialize_keys" for k
    using that False by (simp add: serialize_Some dict_get_default_def map_of_tabulate)
  then show ?thesis
    using False serialize_nonempty [OF False] by (simp add: serialize_Some)
qed

subsection \<open>Lookup by id and the gate\<close>

lemma get_by_id_None:
  "find_one (id_filter i) (col s) = None \<Longrightarrow>
   get_by_id i s = ([], log_ev (FindOne (id_filter i)) s)"
  by (simp add: get_by_id_def col_find_one_def)

lemma get_by_id_Some:
  assumes "find_one (id_filter i) (col s) = Some h"
  shows "get_by_id i s = (serialize (Some h), log_ev (FindOne (id_filter i)) s)" and "h \<noteq> []"
proof -
  from find_one_Some [OF assms] have "map_of h ''id'' = Some (VStr i)"
    by (simp add: matches_single)
  then show "h \<noteq> []" by auto
  then show "get_by_id i s = (serialize (Some h), log_ev (FindOne (id_filter i)) s)"
    using assms by (simp add: get_by_id_def col_find_one_def)
qed

lemma is_active_None:
  "find_one (id_filter i) (col s) = None \<Longrightarrow>
   is_active i s = (False, log_ev (FindOne (id_filter i)) s)"
  by (simp add: is_active_def get_by_id_None)

lemma is_active_Some:
  assumes "find_one (id_filter i) (col s) = Some h"
  shows "is_active i s =
           (map_of h ''status'' = Some (VStr ''active''), log_ev (FindOne (id_filter i)) s)"
proof -
  have "dict_get (serialize (Some h)) ''status'' = dict_get_default h ''status'' (VStr [])"
    using get_by_id_Some(2) [OF assms] by (simp add: dict_get_serialize serialize_keys_def)
  then show ?thesis
    using get_by_id_Some [OF assms] serialize_nonempty [of h]
    by (auto simp: is_active_def dict_get_default_def split: option.splits)
qed

lemma check_status_inactive:
  assumes "\<forall>h. find_one (id_filter i) (col s) = Some h \<longrightarrow> map_of h ''status'' \<noteq> Some (VStr ''active'')"
  shows "check_status func i s = (Inr False, log_ev (FindOne (id_filter i)) s)"
proof (cases "find_one (id_filter i) (col s)")
  case None
  then show ?thesis by (simp add: check_status_def is_active_None)
next
  case (Some h)
  with assms have "map_of h ''status'' \<noteq> Some (VStr ''active'')" by simp
  with Some show ?thesis by (simp add: check_status_def is_active_Some)
qed

lemma check_status_active:
  assumes "find_one (id_filter i) (col s) = Some h" and "map_of h ''status'' = Some (VStr ''active'')"
  shows "check_status func i s = func i (log_ev (FindOne (id_filter i)) s)"
  using assms by (simp add: check_status_def is_active_Some)

subsection \<open>fillup\<close>

lemma col_log_ev: "col (log_ev e s) = col s"
  by (simp add: log_ev_def)

lemma log_ev_eq: "log_ev e s = s\<lparr>trace := trace s @ [e]\<rparr>"
  by (simp add: log_ev_def)

lemma start_threads_eq: "start_threads ts s = s\<lparr>trace := trace s @ map StartThread ts\<rparr>"
  by (induction ts arbitrary: s) (simp_all add: log_ev_def)

lemma host_clusters:
  assumes "h \<noteq> []" and "map_of h ''clusters'' = Some v"
  shows "dict_get (serialize (Some h)) ''clusters'' = v"
  using assms by (simp add: dict_get_serialize serialize_keys_def dict_get_default_def)

lemma host_capacity:
  assumes "h \<noteq> []" and "map_of h ''capacity'' = Some v"
  shows "dict_get (serialize (Some h)) ''capacity'' = v"
  using assms by (simp add: dict_get_serialize serialize_keys_def dict_get_default_def)

lemma fillup_body_full:
  assumes "find_one (id_filter i) (col s) = Some h"
    and "map_of h ''capacity'' = Some (VInt c)"
    and "map_of h ''clusters'' = Some (VList cs)"
    and "c \<le> int (length cs)"
  shows "fillup_body E i s = (Inr True, log_ev (FindOne (id_filter i)) s)"
proof -
  note g = get_by_id_Some [OF assms(1)]
  show ?thesis
    using assms(4)
    by (simp add: fillup_body_def g serialize_nonempty [OF g(2)]
        host_clusters [OF g(2) assms(3)] host_capacity [OF g(2) assms(2)])
qed

lemma fillup_full:
  assumes "find_one (id_filter i) (col s) = Some h"
    and "map_of h ''status'' = Some (VStr ''active'')"
    and "map_of h ''capacity'' = Some (VInt c)"
    and "map_of h ''clusters'' = Some (VList cs)"
    and "c \<le> int (length cs)"
  shows "fillup E i s = (Inr True, s\<lparr>trace := trace s @ [FindOne (id_filter i), FindOne (id_filter i)]\<rparr>)"
proof -
  have "find_one (id_filter i) (col (log_ev (FindOne (id_filter i)) s)) = Some h"
    using assms(1) by (simp add: col_log_ev)
  from fillup_body_full [OF this assms(3,4,5)] show ?thesis
    by (simp add: fillup_def check_status_active [OF assms(1,2)] log_ev_def)
qed

subsection \<open>clean\<close>

lemma db_set_by_id_found:
  assumes "find_one (id_filter i) (col s) = Some h"
  shows "db_set_by_id i [] [(k, v)] s =
           (Inr (serialize (Some (AList.update k v h))),
            s\<lparr>col := update_first (id_filter i) [(k, v)] (col s),
              trace := trace s @ [FindOneAndUpdate (id_filter i) [(k, v)]]\<rparr>)"
  using assms
  by (simp add: db_set_by_id_def db_update_one_def col_find_one_and_update_def log_ev_def)

lemma find_one_after_set:
  assumes "find_one (id_filter i) c = Some h" and "k \<noteq> ''id''"
  shows "find_one (id_filter i) (update_first (id_filter i) [(k, v)] c) = Some (AList.update k v h)"
proof -
  from find_one_Some [OF assms(1)] have "map_of h ''id'' = Some (VStr i)"
    by (simp add: matches_single)
  with assms(2) have "matches (id_filter i) (set_fields [(k, v)] h)"
    by (simp add: matches_single update_conv')
  from find_one_update_first [OF assms(1) this] show ?thesis by simp
qed

lemma update_nonempty: "AList.update k v d \<noteq> []"
  by (cases d) auto

lemma clean_body_empty:
  assumes "find_one (id_filter i) (col s) = Some h"
    and "map_of h ''clusters'' = Some (VList [])"
  shows "clean_body i s = (Inr True, s\<lparr>trace := trace s @ [FindOne (id_filter i)]\<rparr>)"
proof -
  note g = get_by_id_Some [OF assms(1)]
  show ?thesis
    by (simp add: clean_body_def g serialize_nonempty [OF g(2)]
        host_clusters [OF g(2) assms(2)] log_ev_def)
qed

lemma clean_body_nonempty:
  assumes "find_one (id_filter i) (col s) = Some h"
    and "map_of h ''clusters'' = Some (VList cs)"
    and "cs \<noteq> []"
  shows "clean_body i s =
           (Inr True,
            s\<lparr>col := update_first (id_filter i) [(''schedulable'', VBool True)]
                      (update_first (id_filter i) [(''schedulable'', VBool False)] (col s)),
              trace := trace s @
                [FindOne (id_filter i),
                 FindOneAndUpdate (id_filter i) [(''schedulable'', VBool False)]] @
                map (\<lambda>cid. StartThread (ClusterDelete cid)) cs @
                [FindOneAndUpdate (id_filter i) [(''schedulable'', VBool True)]]\<rparr>)"
proof -
  note g = get_by_id_Some [OF assms(1)]
  let ?s1 = "log_ev (FindOne (id_filter i)) s"
  let ?h' = "AList.update ''schedulable'' (VBool False) h"
  have f1: "find_one (id_filter i) (col ?s1) = Some h"
    using assms(1) by (simp add: col_log_ev)
  have cl: "dict_get (serialize (Some ?h')) ''clusters'' = VList cs"
    using assms(2) by (intro host_clusters) (simp_all add: update_nonempty update_conv')
  let ?s2 = "?s1\<lparr>col := update_first (id_filter i) [(''schedulable'', VBool False)] (col ?s1),
                 trace := trace ?s1 @
                   [FindOneAndUpdate (id_filter i) [(''schedulable'', VBool False)]]\<rparr>"
  let ?s3 = "start_threads (map ClusterDelete cs) ?s2"
  have f3: "find_one (id_filter i) (col ?s3) = Some ?h'"
    using find_one_after_set [OF assms(1), of "''schedulable''" "VBool False"]
    by (simp add: start_threads_eq col_log_ev)
  have "clean_body i s =
          (case db_set_by_id i [] [(''schedulable'', VBool True)] ?s3 of
             (Inl e, s3) \<Rightarrow> (Inl e, s3) | (Inr h, s3) \<Rightarrow> (Inr True, s3))"
    using assms(3)
    by (simp add: clean_body_def g serialize_nonempty [OF g(2)]
        host_clusters [OF g(2) assms(2)] db_set_by_id_found [OF f1] cl)
  also have "\<dots> = (Inr True,
       ?s3\<lparr>col := update_first (id_filter i) [(''schedulable'', VBool True)] (col ?s3),
           trace := trace ?s3 @
             [FindOneAndUpdate (id_filter i) [(''schedulable'', VBool True)]]\<rparr>)"
    by (simp add: db_set_by_id_found [OF f3])
  finally show ?thesis
    by (simp add: start_threads_eq log_ev_def comp_def)
qed

subsection \<open>delete\<close>

lemma delete_missing:
  assumes "find_one (id_filter i) (col s) = None"
  shows "delete i s = (False, s\<lparr>trace := trace s @ [FindOne (id_filter i)]\<rparr>)"
  by (simp add: delete_def get_by_id_None [OF assms] log_ev_def)

lemma delete_found:
  assumes "find_one (id_filter i) (col s) = Some h"
    and "map_of h ''clusters'' = Some v"
  shows "delete i s =
           (if py_truthy v then (False, s\<lparr>trace := trace s @ [FindOne (id_filter i)]\<rparr>)
            else (True,
                  s\<lparr>col := remove1 h (col s),
                    trace := trace s @
                      [FindOne (id_filter i),
                       CleanupContainerHost (dict_get_default h ''daemon_url'' (VStr [])),
                       DeleteOne (id_filter i)]\<rparr>))"
proof -
  note g = get_by_id_Some [OF assms(1)]
  have cl: "dict_get_default (serialize (Some h)) ''clusters'' (VStr []) = v"
    using g(2) assms(2)
    by (simp add: serialize_Some dict_get_default_def map_of_tabulate serialize_keys_def)
  have du: "dict_get (serialize (Some h)) ''daemon_url'' =
              dict_get_default h ''daemon_url'' (VStr [])"
    using g(2) by (simp add: dict_get_serialize serialize_keys_def)
  show ?thesis
    by (simp add: delete_def g serialize_nonempty [OF g(2)] cl du col_delete_one_def
        log_ev_def delete_first_remove1 [OF assms(1)])
qed

subsection \<open>update\<close>

text \<open>
  On an existing host \<^verbatim>\<open>update\<close> never returns a record: without a \<^verbatim>\<open>capacity\<close> key it
  raises at line 147, with one it is either rejected by the guard or raises at line 154,
  where \<^verbatim>\<open>db_set_by_id\<close> is handed the dict as a second positional argument.
\<close>

lemma update_missing:
  assumes "find_one (id_filter i) (col s) = None"
  shows "update E i d s = (Inr [], d, s\<lparr>trace := trace s @ [FindOne (id_filter i)]\<rparr>)"
  by (simp add: update_def get_by_id_None [OF assms] log_ev_def)

lemma update_capacity_only:
  assumes "find_one (id_filter i) (col s) = Some h"
    and "map_of h ''clusters'' = Some (VList cs)"
  shows "update E i [(''capacity'', VInt c)] s =
           (if c < int (length cs) then Inr [] else Inl TypeError,
            [(''capacity'', VInt c)],
            s\<lparr>trace := trace s @ [FindOne (id_filter i)]\<rparr>)"
proof -
  note g = get_by_id_Some [OF assms(1)]
  show ?thesis
    by (simp add: update_def g serialize_nonempty [OF g(2)] upd_daemon_url_def
        upd_capacity_def capacity_too_small_def host_clusters [OF g(2) assms(2)]
        upd_log_server_def db_set_by_id_def log_ev_def)
qed

lemma update_raises_or_fails: "fst (update E i d s) = Inr r \<Longrightarrow> r = []"
  by (auto simp: update_def db_set_by_id_def Let_def split: prod.splits if_splits sum.splits)

lemma update_without_capacity:
  assumes "find_one (id_filter i) (col s) = Some h"
    and "map_of d ''capacity'' = None"
    and "map_of d ''daemon_url'' = None \<or> (\<exists>u. map_of d ''daemon_url'' = Some (VStr u))"
  shows "fst (update E i d s) = Inl KeyError"
proof -
  note g = get_by_id_Some [OF assms(1)]
  from assms(3) obtain d1 where d1: "upd_daemon_url d = Inr d1"
    and "map_of d1 ''capacity'' = map_of d ''capacity''"
    by (auto simp: upd_daemon_url_def update_conv')
  with assms(2) have "upd_capacity d1 = Inr d1" and "capacity_too_small d1 (serialize (Some h)) = Inl KeyError"
    by (simp_all add: upd_capacity_def capacity_too_small_def)
  then show ?thesis
    by (simp add: update_def g serialize_nonempty [OF g(2)] d1)
qed

lemma normalize_idem: "normalize_daemon_url (normalize_daemon_url u) = normalize_daemon_url u"
  by (simp add: normalize_daemon_url_def startswith_def)

lemma upd_daemon_url_str:
  assumes "map_of d ''daemon_url'' = Some (VStr u)"
  shows "\<exists>d1. upd_daemon_url d = Inr d1 \<and>
              map_of d1 ''daemon_url'' = Some (VStr (normalize_daemon_url u))"
  using assms by (simp add: upd_daemon_url_def normalize_daemon_url_def update_conv')

lemma upd_capacity_keeps:
  "upd_capacity d = Inr d' \<Longrightarrow> map_of d' ''daemon_url'' = map_of d ''daemon_url''"
  by (auto simp: upd_capacity_def update_conv' split: option.splits sum.splits)

lemma upd_log_server_keeps:
  "upd_log_server d = Inr d' \<Longrightarrow> map_of d' ''daemon_url'' = map_of d ''daemon_url''"
  by (auto simp: upd_log_server_def update_conv' split: option.splits pyval.splits if_splits)

lemma update_normalizes_dict:
  assumes "find_one (id_filter i) (col s) = Some h"
    and "map_of d ''daemon_url'' = Some (VStr u)"
  shows "map_of (fst (snd (update E i d s))) ''daemon_url'' =
           Some (VStr (normalize_daemon_url u))"
proof -
  note g = get_by_id_Some [OF assms(1)]
  from upd_daemon_url_str [OF assms(2)] obtain d1 where d1: "upd_daemon_url d = Inr d1"
    and u1: "map_of d1 ''daemon_url'' = Some (VStr (normalize_daemon_url u))" by blast
  show ?thesis
    using u1
    by (auto simp: update_def g serialize_nonempty [OF g(2)] d1 Let_def update_conv'
        db_set_by_id_def
        dest!: upd_capacity_keeps upd_log_server_keeps split: sum.splits)
qed

subsection \<open>Creating a host\<close>

lemma fresh_find:
  assumes "object_id_fresh E s"
  shows "find_one [(''_id'', VOid (new_object_id E (next_oid s)))] (col s) = None"
    and "find_one (id_filter (new_object_id E (next_oid s))) (col s) = None"
  using assms
  by (auto simp: object_id_fresh_def Let_def list_all_iff find_one_def find_None_iff
      matches_single)

lemma get_by_id_col: "col (snd (get_by_id i s)) = col s"
  by (simp add: get_by_id_def col_find_one_def log_ev_def split: option.splits)

lemma fillup_body_col: "col (snd (fillup_body E i s)) = col s"
proof -
  obtain host s1 where g: "get_by_id i s = (host, s1)" by (cases "get_by_id i s")
  with get_by_id_col [of i s] have "col s1 = col s" by simp
  then show ?thesis
    by (simp add: fillup_body_def g Let_def start_threads_eq log_ev_def split: sum.splits)
qed

lemma is_active_col: "col (snd (is_active i s)) = col s"
proof -
  obtain host s1 where g: "get_by_id i s = (host, s1)" by (cases "get_by_id i s")
  with get_by_id_col [of i s] have "col s1 = col s" by simp
  then show ?thesis by (simp add: is_active_def g)
qed

lemma fillup_col: "col (snd (fillup E i s)) = col s"
proof -
  obtain a s1 where a: "is_active i s = (a, s1)" by (cases "is_active i s")
  with is_active_col [of i s] have "col s1 = col s" by simp
  then show ?thesis
    by (simp add: fillup_def check_status_def a fillup_body_col)
qed

lemma fillup_body_returns:
  assumes "find_one (id_filter i) (col s) = Some h"
    and "map_of h ''capacity'' = Some (VInt c)"
    and "map_of h ''clusters'' = Some (VList cs)"
  shows "fst (fillup_body E i s) = Inr True"
proof -
  note g = get_by_id_Some [OF assms(1)]
  show ?thesis
    by (simp add: fillup_body_def g serialize_nonempty [OF g(2)] Let_def
        host_clusters [OF g(2) assms(3)] host_capacity [OF g(2) assms(2)])
qed

lemma fillup_returns:
  assumes "find_one (id_filter i) (col s) = Some h"
    and "map_of h ''capacity'' = Some (VInt c)"
    and "map_of h ''clusters'' = Some (VList cs)"
  shows "fst (fillup E i s) = Inr (map_of h ''status'' = Some (VStr ''active''))"
proof -
  have "find_one (id_filter i) (col (log_ev (FindOne (id_filter i)) s)) = Some h"
    using assms(1) by (simp add: col_log_ev)
  from fillup_body_returns [OF this assms(2,3)] show ?thesis
    by (simp add: fillup_def check_status_def is_active_Some [OF assms(1)])
qed

lemma create_duplicate:
  assumes "find_one [(''daemon_url'', VStr (normalize_daemon_url u))] (col s) = Some x"
  shows "create E name u cap ll lt ls ff sch ser s =
           (Inr [],
            s\<lparr>trace := trace s @ [FindOne [(''daemon_url'', VStr (normalize_daemon_url u))]]\<rparr>)"
proof -
  have "col_find_one [(''daemon_url'', VStr (normalize_daemon_url u))] s =
          (Some x, log_ev (FindOne [(''daemon_url'', VStr (normalize_daemon_url u))]) s)"
    using assms by (simp add: col_find_one_def)
  then show ?thesis
    unfolding create_def normalize_daemon_url_def [symmetric] Let_def
    by (simp add: log_ev_def)
qed

lemma create_setup_failure:
  assumes "find_one [(''daemon_url'', VStr (normalize_daemon_url u))] (col s) = None"
    and "\<not> setup_container_host E (detect_daemon_type E (normalize_daemon_url u))
              (normalize_daemon_url u)"
  shows "create E name u cap ll lt ls ff sch ser s =
           (Inr [],
            s\<lparr>trace := trace s @
                [FindOne [(''daemon_url'', VStr (normalize_daemon_url u))],
                 CheckDaemon (normalize_daemon_url u),
                 DetectDaemonType (normalize_daemon_url u),
                 SetupContainerHost (detect_daemon_type E (normalize_daemon_url u))
                   (normalize_daemon_url u)]\<rparr>)"
proof -
  have "col_find_one [(''daemon_url'', VStr (normalize_daemon_url u))] s =
          (None, log_ev (FindOne [(''daemon_url'', VStr (normalize_daemon_url u))]) s)"
    using assms(1) by (simp add: col_find_one_def)
  then show ?thesis
    unfolding create_def normalize_daemon_url_def [symmetric] Let_def
    using assms(2) by (simp add: log_ev_def)
qed

lemma create_setup_fails_frame:
  assumes "\<not> setup_container_host E (detect_daemon_type E (normalize_daemon_url u))
              (normalize_daemon_url u)"
  shows "fst (create E name u cap ll lt ls ff sch ser s) = Inr []"
    and "col (snd (create E name u cap ll lt ls ff sch ser s)) = col s"
    and "filter is_store_write (trace (snd (create E name u cap ll lt ls ff sch ser s))) =
           filter is_store_write (trace s)"
proof -
  show "fst (create E name u cap ll lt ls ff sch ser s) = Inr []"
    by (cases "find_one [(''daemon_url'', VStr (normalize_daemon_url u))] (col s)")
      (simp_all add: create_duplicate create_setup_failure [OF _ assms])
  show "col (snd (create E name u cap ll lt ls ff sch ser s)) = col s"
    by (cases "find_one [(''daemon_url'', VStr (normalize_daemon_url u))] (col s)")
      (simp_all add: create_duplicate create_setup_failure [OF _ assms])
  show "filter is_store_write (trace (snd (create E name u cap ll lt ls ff sch ser s))) =
           filter is_store_write (trace s)"
    by (cases "find_one [(''daemon_url'', VStr (normalize_daemon_url u))] (col s)")
      (simp_all add: create_duplicate create_setup_failure [OF _ assms])
qed

lemma find_one_appended:
  "find_one flt c = None \<Longrightarrow> matches flt d \<Longrightarrow> find_one flt (c @ [d]) = Some d"
  by (simp add: find_one_append)

lemma object_id_fresh_log_ev: "object_id_fresh E (log_ev e s) = object_id_fresh E s"
  by (simp add: object_id_fresh_def log_ev_def)

lemma insert_then_tag:
  assumes fresh: "object_id_fresh E t" and enc: "doc_encodable h"
  shows "\<exists>s5 s6. col_insert_one E h t = (Inr (new_object_id E (next_oid t)), s5) \<and>
           db_update_one [(''_id'', VOid (new_object_id E (next_oid t)))]
               [(''id'', VStr (new_object_id E (next_oid t)))] True s5 =
             (serialize (Some (AList.update ''id'' (VStr (new_object_id E (next_oid t)))
                 (AList.update ''_id'' (VOid (new_object_id E (next_oid t))) h))), s6) \<and>
           col s6 = col t @ [AList.update ''id'' (VStr (new_object_id E (next_oid t)))
                 (AList.update ''_id'' (VOid (new_object_id E (next_oid t))) h)]"
  using fresh_find(1) [OF fresh] enc
  by (simp add: col_insert_one_def db_update_one_def col_find_one_and_update_def Let_def
      log_ev_def find_one_append update_first_append matches_single update_conv')

lemma create_success:
  assumes nodup: "find_one [(''daemon_url'', VStr (normalize_daemon_url u))] (col s) = None"
    and ok: "setup_container_host E (detect_daemon_type E (normalize_daemon_url u))
              (normalize_daemon_url u)"
    and fresh: "object_id_fresh E s"
    and cap: "- (2 ^ 63) \<le> cap \<and> cap < 2 ^ 63"
    and sch: "bson_encodable sch"
  shows "\<exists>doc s'. create E name u cap ll lt ls ff sch ser s = (Inr (serialize (Some doc)), s') \<and>
           col s' = col s @ [doc] \<and>
           map_of doc ''name'' = Some (VStr name) \<and>
           map_of doc ''daemon_url'' = Some (VStr (normalize_daemon_url u)) \<and>
           map_of doc ''capacity'' = Some (VInt cap) \<and>
           map_of doc ''clusters'' = Some (VList []) \<and>
           map_of doc ''schedulable'' = Some sch \<and>
           map_of doc ''id'' = Some (VStr (new_object_id E (next_oid s)))"
proof -
  let ?url = "normalize_daemon_url u"
  let ?S4 = "log_ev (SetupContainerHost (detect_daemon_type E ?url) ?url)
               (log_ev (DetectDaemonType ?url)
                 (log_ev (CheckDaemon ?url)
                   (log_ev (FindOne [(''daemon_url'', VStr ?url)]) s)))"
  let ?H = "[(''name'', VStr name),
             (''daemon_url'', VStr ?url),
             (''create_ts'', VTime (now E)),
             (''capacity'', VInt cap),
             (''status'', VStr (if check_daemon E ?url then ''active'' else ''inactive'')),
             (''clusters'', VList []),
             (''type'', VStr (detect_daemon_type E ?url)),
             (''log_level'', VStr ll),
             (''log_type'', VStr lt),
             (''log_server'', VStr (if lt = LOG_TYPES_0 E then []
                  else if \<not> str_contains ''://'' ls then ''udp://'' @ ls else ls)),
             (''schedulable'', sch)]"
  let ?o = "new_object_id E (next_oid s)"
  let ?doc = "AList.update ''id'' (VStr ?o) (AList.update ''_id'' (VOid ?o) ?H)"
  have f0: "col_find_one [(''daemon_url'', VStr ?url)] s =
          (None, log_ev (FindOne [(''daemon_url'', VStr ?url)]) s)"
    using nodup by (simp add: col_find_one_def)
  have step: "create E name u cap ll lt ls ff sch ser s =
      (case col_insert_one E ?H ?S4 of
         (Inl e, s5) \<Rightarrow> (Inl e, s5)
       | (Inr hid, s5) \<Rightarrow>
           (case db_update_one [(''_id'', VOid hid)] [(''id'', VStr hid)] True s5 of
              (host, s6) \<Rightarrow>
                if 0 < cap \<and> ff then
                  (case fillup E hid s6 of
                     (Inl e, s7) \<Rightarrow> (Inl e, s7)
                   | (Inr b, s7) \<Rightarrow> (Inr (if ser then serialize (Some host) else host), s7))
                else (Inr (if ser then serialize (Some host) else host), s6)))"
    unfolding create_def normalize_daemon_url_def [symmetric] Let_def
    using ok by (simp only: f0 prod.case option.case if_False not_True_eq_False simp_thms)
  have no: "next_oid ?S4 = next_oid s" and co: "col ?S4 = col s"
    by (simp_all add: log_ev_def)
  have "object_id_fresh E ?S4"
    using fresh by (simp add: object_id_fresh_log_ev)
  moreover have "doc_encodable ?H"
    using cap sch by (simp add: doc_encodable_def)
  ultimately obtain s5 s6
    where i: "col_insert_one E ?H ?S4 = (Inr ?o, s5)"
      and j: "db_update_one [(''_id'', VOid ?o)] [(''id'', VStr ?o)] True s5 =
                (serialize (Some ?doc), s6)"
      and c6: "col s6 = col s @ [?doc]"
    using insert_then_tag [of E ?S4 ?H] unfolding no co by blast
  have fields: "map_of ?doc ''name'' = Some (VStr name)"
    "map_of ?doc ''daemon_url'' = Some (VStr ?url)"
    "map_of ?doc ''capacity'' = Some (VInt cap)"
    "map_of ?doc ''clusters'' = Some (VList [])"
    "map_of ?doc ''schedulable'' = Some sch"
    "map_of ?doc ''id'' = Some (VStr ?o)"
    by (simp_all add: update_conv')
  have found: "find_one (id_filter ?o) (col s6) = Some ?doc"
    unfolding c6
    by (rule find_one_appended [OF fresh_find(2) [OF fresh]], unfold matches_single,
        rule fields(6))
  obtain r s7 where fl: "fillup E ?o s6 = (r, s7)" by (cases "fillup E ?o s6")
  from fillup_returns [OF found fields(3,4), of E] fl obtain b where r: "r = Inr b" by simp
  from fillup_col [of E ?o s6] fl have c7: "col s7 = col s6" by simp
  have "\<exists>s'. create E name u cap ll lt ls ff sch ser s = (Inr (serialize (Some ?doc)), s') \<and>
           col s' = col s @ [?doc]"
  proof (cases "0 < cap \<and> ff")
    case True
    have "create E name u cap ll lt ls ff sch ser s = (Inr (serialize (Some ?doc)), s7)"
      using True
      by (subst step) (simp only: i j fl r prod.case sum.case if_True serialize_idem if_cancel simp_thms)
    with c7 c6 show ?thesis by simp
  next
    case False
    have "create E name u cap ll lt ls ff sch ser s = (Inr (serialize (Some ?doc)), s6)"
      using False
      by (subst step)
        (simp only: i j prod.case sum.case if_False serialize_idem if_cancel simp_thms)
    with c6 show ?thesis by simp
  qed
  with fields show ?thesis by blast
qed

text \<open>
  When the store cannot encode the capacity or the \<^verbatim>\<open>schedulable\<close> argument, the
  \<^verbatim>\<open>insert_one\<close> of line 101 raises and \<^verbatim>\<open>create\<close> with it; nothing is stored. The
  properties of a successful \<^verbatim>\<open>create\<close> therefore ask for values that encode.
\<close>

lemma create_overflow:
  assumes nodup: "find_one [(''daemon_url'', VStr (normalize_daemon_url u))] (col s) = None"
    and ok: "setup_container_host E (detect_daemon_type E (normalize_daemon_url u))
              (normalize_daemon_url u)"
    and big: "\<not> (- (2 ^ 63) \<le> cap \<and> cap < 2 ^ 63) \<or> \<not> bson_encodable sch"
  shows "fst (create E name u cap ll lt ls ff sch ser s) = Inl OverflowError \<and>
         col (snd (create E name u cap ll lt ls ff sch ser s)) = col s"
proof -
  have f0: "col_find_one [(''daemon_url'', VStr (normalize_daemon_url u))] s =
          (None, log_ev (FindOne [(''daemon_url'', VStr (normalize_daemon_url u))]) s)"
    using nodup by (simp add: col_find_one_def)
  show ?thesis
    unfolding create_def normalize_daemon_url_def [symmetric] Let_def
    using ok big
    by (auto simp add: f0 col_insert_one_def doc_encodable_def log_ev_def Let_def
        split del: if_split)
qed

subsection \<open>Facts about the example inputs, and two facts about strings\<close>

lemma example_find:
  "find_one (id_filter hid) (col (store_of [host_doc hid st cap cls])) = Some (host_doc hid st cap cls)"
  by (simp add: find_one_def matches_single store_of_def host_doc_def)

lemma host_doc_fields:
  "map_of (host_doc hid st cap cls) ''status'' = Some (VStr st)"
  "map_of (host_doc hid st cap cls) ''capacity'' = Some (VInt cap)"
  "map_of (host_doc hid st cap cls) ''clusters'' = Some (VList cls)"
  "map_of (host_doc hid st cap cls) ''daemon_url'' = Some (VStr ''tcp://10.0.0.1:2375'')"
  by (simp_all add: host_doc_def)

lemma example_missing:
  "hid' \<noteq> hid \<Longrightarrow> find_one (id_filter hid') (col (store_of [host_doc hid st cap cls])) = None"
  by (simp add: find_one_def matches_single store_of_def host_doc_def)

lemma empty_store_facts:
  "find_one flt (col (store_of [])) = None"
  "object_id_fresh E (store_of [])"
  by (simp_all add: find_one_def store_of_def object_id_fresh_def)

lemma env_ok_setup: "setup_container_host env_ok t u"
  by (simp add: env_ok_def)

lemma env_setup_fails_setup: "\<not> setup_container_host env_setup_fails t u"
  by (simp add: env_setup_fails_def env_ok_def)

lemma no_scheme_not_tcp: "\<not> str_contains p u \<Longrightarrow> \<not> startswith u p"
  by (cases u) (auto simp: startswith_def)

lemma str_contains_append: "str_contains p ys \<Longrightarrow> str_contains p (xs @ ys)"
  by (induction xs) simp_all

lemma tcp_prefix_has_scheme:
  assumes "startswith u ''tcp://''"
  shows "str_contains ''://'' u"
proof -
  define r where "r = drop (length ''tcp://'') u"
  from assms have t: "take (length ''tcp://'') u = ''tcp://''"
    unfolding startswith_def .
  have "take (length ''tcp://'') u @ r = u"
    unfolding r_def by (rule append_take_drop_id)
  then have "''tcp://'' @ r = u" by (simp only: t)
  then have u: "u = ''tcp'' @ (''://'' @ r)" by simp
  have "startswith (''://'' @ r) ''://''" by (simp add: startswith_def)
  then have "str_contains ''://'' (''://'' @ r)"
    using no_scheme_not_tcp by blast
  then have "str_contains ''://'' (''tcp'' @ (''://'' @ r))"
    by (rule str_contains_append)
  with u show ?thesis by simp
qed

lemma normalize_examples:
  "normalize_daemon_url ''10.0.0.1:2375'' = ''tcp://10.0.0.1:2375''"
  "normalize_daemon_url ''tcp://10.0.0.1:2375'' = ''tcp://10.0.0.1:2375''"
  by (simp_all add: normalize_daemon_url_def startswith_def)

lemma clean_active:
  assumes "find_one (id_filter i) (col s) = Some h"
    and "map_of h ''status'' = Some (VStr ''active'')"
    and "map_of h ''clusters'' = Some (VList cs)"
  shows "clean i s =
           (Inr True,
            if cs = [] then
              s\<lparr>trace := trace s @ [FindOne (id_filter i), FindOne (id_filter i)]\<rparr>
            else
              s\<lparr>col := update_first (id_filter i) [(''schedulable'', VBool True)]
                        (update_first (id_filter i) [(''schedulable'', VBool False)] (col s)),
                trace := trace s @
                  [FindOne (id_filter i), FindOne (id_filter i),
                   FindOneAndUpdate (id_filter i) [(''schedulable'', VBool False)]] @
                  map (\<lambda>cid. StartThread (ClusterDelete cid)) cs @
                  [FindOneAndUpdate (id_filter i) [(''schedulable'', VBool True)]]\<rparr>)"
proof -
  let ?s1 = "log_ev (FindOne (id_filter i)) s"
  have f1: "find_one (id_filter i) (col ?s1) = Some h"
    using assms(1) by (simp add: col_log_ev)
  have gate: "clean i s = clean_body i ?s1"
    by (simp add: clean_def check_status_active [OF assms(1,2)])
  show ?thesis
  proof (cases "cs = []")
    case True
    with assms(3) have "map_of h ''clusters'' = Some (VList [])" by simp
    from clean_body_empty [OF f1 this] True show ?thesis
      by (simp add: gate log_ev_def)
  next
    case False
    from clean_body_nonempty [OF f1 assms(3) False] False show ?thesis
      by (simp add: gate log_ev_def)
  qed
qed

lemma clean_store_writes:
  assumes "find_one (id_filter i) (col s) = Some h"
    and "map_of h ''status'' = Some (VStr ''active'')"
    and "map_of h ''clusters'' = Some (VList cs)"
    and "cs \<noteq> []"
  shows "filter is_store_write (trace (snd (clean i s))) =
           filter is_store_write (trace s) @
             [FindOneAndUpdate (id_filter i) [(''schedulable'', VBool False)],
              FindOneAndUpdate (id_filter i) [(''schedulable'', VBool True)]]"
proof -
  have "filter is_store_write (map (\<lambda>cid. StartThread (ClusterDelete cid)) cs) = []"
    by (induction cs) simp_all
  with assms(4) show ?thesis
    by (simp add: clean_active [OF assms(1,2,3)])
qed

section \<open>The properties of the specification\<close>

text \<open>
  C1. For every existing host and every partial-update dict, \<^verbatim>\<open>update\<close> should apply the
  changes and return the updated record without raising, also when the dict has no
  \<^verbatim>\<open>capacity\<close> key. The code does not: on the stored host \<open>h1\<close>, the dict
  \<^verbatim>\<open>{"name": "renamed"}\<close> raises \<^verbatim>\<open>KeyError\<close> at the unguarded \<^verbatim>\<open>d["capacity"]\<close> of line
  147, and the dict \<^verbatim>\<open>{"capacity": 5}\<close>, which passes the guard, raises \<^verbatim>\<open>TypeError\<close> at
  the call \<^verbatim>\<open>self.db_set_by_id(id, d)\<close> of line 154. Nothing is written in either case.
\<close>

theorem update_raises_on_existing_host:
  "update env_ok ''h1'' [(''name'', VStr ''renamed'')] (store_of [host_doc ''h1'' ''active'' 2 []]) =
     (Inl KeyError, [(''name'', VStr ''renamed'')],
      \<lparr>col = [host_doc ''h1'' ''active'' 2 []], next_oid = 1,
       trace = [FindOne (id_filter ''h1'')]\<rparr>) \<and>
   update env_ok ''h1'' [(''capacity'', VInt 5)] (store_of [host_doc ''h1'' ''active'' 2 []]) =
     (Inl TypeError, [(''capacity'', VInt 5)],
      \<lparr>col = [host_doc ''h1'' ''active'' 2 []], next_oid = 1,
       trace = [FindOne (id_filter ''h1'')]\<rparr>)"
proof -
  note g = get_by_id_Some [OF example_find [of "''h1''" "''active''" 2 "[]"]]
  have k: "update env_ok ''h1'' [(''name'', VStr ''renamed'')]
             (store_of [host_doc ''h1'' ''active'' 2 []]) =
           (Inl KeyError, [(''name'', VStr ''renamed'')],
            log_ev (FindOne (id_filter ''h1'')) (store_of [host_doc ''h1'' ''active'' 2 []]))"
    by (simp add: update_def g serialize_nonempty [OF g(2)] upd_daemon_url_def
        upd_capacity_def capacity_too_small_def)
  have t: "update env_ok ''h1'' [(''capacity'', VInt 5)]
             (store_of [host_doc ''h1'' ''active'' 2 []]) =
           (Inl TypeError, [(''capacity'', VInt 5)],
            (store_of [host_doc ''h1'' ''active'' 2 []])
              \<lparr>trace := trace (store_of [host_doc ''h1'' ''active'' 2 []]) @
                 [FindOne (id_filter ''h1'')]\<rparr>)"
    using update_capacity_only [OF example_find [of "''h1''" "''active''" 2 "[]"]
        host_doc_fields(3), where E = env_ok and c = 5]
    by simp
  show ?thesis
    by (simp add: k t log_ev_def) (simp add: store_of_def)
qed

text \<open>
  C2, as amended. When the host does not exist or its stored status is not \<^verbatim>\<open>"active"\<close>,
  each of \<^verbatim>\<open>fillup\<close>, \<^verbatim>\<open>clean\<close> and \<^verbatim>\<open>reset\<close> returns \<^verbatim>\<open>False\<close> and leaves the store as it
  was; the only call it makes is the one \<^verbatim>\<open>find_one\<close> by which the \<^verbatim>\<open>is_active\<close> gate reads
  the host: no store write and no call of the cluster provisioner.
\<close>

theorem gated_inactive_is_noop:
  assumes "find_one (id_filter i) (col s) = None \<or>
           (\<exists>h. find_one (id_filter i) (col s) = Some h \<and>
                map_of h ''status'' \<noteq> Some (VStr ''active''))"
  shows "fillup E i s = (Inr False, s\<lparr>trace := trace s @ [FindOne (id_filter i)]\<rparr>) \<and>
         clean i s = (Inr False, s\<lparr>trace := trace s @ [FindOne (id_filter i)]\<rparr>) \<and>
         reset E i s = (Inr False, s\<lparr>trace := trace s @ [FindOne (id_filter i)]\<rparr>)"
proof -
  from assms
  have "\<forall>h. find_one (id_filter i) (col s) = Some h \<longrightarrow>
            map_of h ''status'' \<noteq> Some (VStr ''active'')"
    by auto
  from check_status_inactive [OF this] show ?thesis
    by (simp add: fillup_def clean_def reset_def log_ev_eq)
qed

theorem gated_inactive_is_noop_witness:
  "find_one (id_filter ''h1'') (col (store_of [host_doc ''h1'' ''inactive'' 2 []])) =
     Some (host_doc ''h1'' ''inactive'' 2 []) \<and>
   map_of (host_doc ''h1'' ''inactive'' 2 []) ''status'' \<noteq> Some (VStr ''active'') \<and>
   find_one (id_filter ''h2'') (col (store_of [host_doc ''h1'' ''active'' 2 []])) = None \<and>
   fillup env_ok ''h1'' (store_of [host_doc ''h1'' ''inactive'' 2 []]) =
     (Inr False, \<lparr>col = [host_doc ''h1'' ''inactive'' 2 []], next_oid = 1,
                  trace = [FindOne (id_filter ''h1'')]\<rparr>) \<and>
   clean ''h2'' (store_of [host_doc ''h1'' ''active'' 2 []]) =
     (Inr False, \<lparr>col = [host_doc ''h1'' ''active'' 2 []], next_oid = 1,
                  trace = [FindOne (id_filter ''h2'')]\<rparr>) \<and>
   reset env_ok ''h1'' (store_of [host_doc ''h1'' ''inactive'' 2 []]) =
     (Inr False, \<lparr>col = [host_doc ''h1'' ''inactive'' 2 []], next_oid = 1,
                  trace = [FindOne (id_filter ''h1'')]\<rparr>)"
proof -
  have a: "find_one (id_filter ''h1'') (col (store_of [host_doc ''h1'' ''inactive'' 2 []])) =
     Some (host_doc ''h1'' ''inactive'' 2 [])"
    by (rule example_find)
  have b: "map_of (host_doc ''h1'' ''inactive'' 2 []) ''status'' \<noteq> Some (VStr ''active'')"
    by (simp add: host_doc_fields)
  have c: "find_one (id_filter ''h2'') (col (store_of [host_doc ''h1'' ''active'' 2 []])) = None"
    by (simp add: example_missing)
  from a b
  have h1: "find_one (id_filter ''h1'') (col (store_of [host_doc ''h1'' ''inactive'' 2 []])) = None \<or>
     (\<exists>h. find_one (id_filter ''h1'') (col (store_of [host_doc ''h1'' ''inactive'' 2 []])) = Some h \<and>
          map_of h ''status'' \<noteq> Some (VStr ''active''))"
    by blast
  from c
  have h2: "find_one (id_filter ''h2'') (col (store_of [host_doc ''h1'' ''active'' 2 []])) = None \<or>
     (\<exists>h. find_one (id_filter ''h2'') (col (store_of [host_doc ''h1'' ''active'' 2 []])) = Some h \<and>
          map_of h ''status'' \<noteq> Some (VStr ''active''))"
    by blast
  show ?thesis
    using a b c gated_inactive_is_noop [OF h1, of env_ok] gated_inactive_is_noop [OF h2, of env_ok]
    by (simp add: store_of_def)
qed

text \<open>
  C2 as stated fails: on a stored host whose status is \<^verbatim>\<open>"inactive"\<close>, \<^verbatim>\<open>fillup\<close> returns
  \<^verbatim>\<open>False\<close>, and the store calls it has made are not none: the gate has called
  \<^verbatim>\<open>find_one\<close>.
\<close>

theorem gated_inactive_store_call_counterexample:
  "fst (fillup env_ok ''h1'' (store_of [host_doc ''h1'' ''inactive'' 2 []])) = Inr False \<and>
   filter is_store_call
     (trace (snd (fillup env_ok ''h1'' (store_of [host_doc ''h1'' ''inactive'' 2 []])))) =
     [FindOne (id_filter ''h1'')]"
proof -
  have "is_active ''h1'' (store_of [host_doc ''h1'' ''inactive'' 2 []]) =
          (False, log_ev (FindOne (id_filter ''h1'')) (store_of [host_doc ''h1'' ''inactive'' 2 []]))"
    by (simp add: is_active_Some [OF example_find] host_doc_fields)
  then show ?thesis
    by (simp add: fillup_def check_status_def log_ev_def store_of_def)
qed

text \<open>
  C3. For an existing host whose \<^verbatim>\<open>clusters\<close> list has more than \<open>c\<close> entries,
  \<^verbatim>\<open>update(id, {"capacity": c})\<close> returns the empty dict; the only call it has made is the
  \<^verbatim>\<open>find_one\<close> that read the host, so nothing is written and the stored capacity is what
  it was. Read from right to left this is also the second half of the claim: the call
  cannot succeed unless \<open>c\<close> is at least the number of clusters.
\<close>

theorem update_rejects_capacity_below_clusters:
  assumes "find_one (id_filter i) (col s) = Some h"
    and "map_of h ''clusters'' = Some (VList cs)"
    and "c < int (length cs)"
  shows "update E i [(''capacity'', VInt c)] s =
           (Inr [], [(''capacity'', VInt c)],
            s\<lparr>trace := trace s @ [FindOne (id_filter i)]\<rparr>)"
  using assms(3) by (simp add: update_capacity_only [OF assms(1,2)])

theorem update_rejects_capacity_below_clusters_witness:
  "find_one (id_filter ''h1'')
     (col (store_of [host_doc ''h1'' ''active'' 2 [VStr ''c1'', VStr ''c2'']])) =
     Some (host_doc ''h1'' ''active'' 2 [VStr ''c1'', VStr ''c2'']) \<and>
   map_of (host_doc ''h1'' ''active'' 2 [VStr ''c1'', VStr ''c2'']) ''clusters'' =
     Some (VList [VStr ''c1'', VStr ''c2'']) \<and>
   (1::int) < int (length [VStr ''c1'', VStr ''c2'']) \<and>
   update env_ok ''h1'' [(''capacity'', VInt 1)]
     (store_of [host_doc ''h1'' ''active'' 2 [VStr ''c1'', VStr ''c2'']]) =
     (Inr [], [(''capacity'', VInt 1)],
      \<lparr>col = [host_doc ''h1'' ''active'' 2 [VStr ''c1'', VStr ''c2'']], next_oid = 1,
       trace = [FindOne (id_filter ''h1'')]\<rparr>)"
proof -
  have a: "find_one (id_filter ''h1'')
     (col (store_of [host_doc ''h1'' ''active'' 2 [VStr ''c1'', VStr ''c2'']])) =
     Some (host_doc ''h1'' ''active'' 2 [VStr ''c1'', VStr ''c2''])"
    by (rule example_find)
  have b: "map_of (host_doc ''h1'' ''active'' 2 [VStr ''c1'', VStr ''c2'']) ''clusters'' =
     Some (VList [VStr ''c1'', VStr ''c2''])"
    by (rule host_doc_fields)
  have c: "(1::int) < int (length [VStr ''c1'', VStr ''c2''])" by simp
  show ?thesis
    using a b c update_rejects_capacity_below_clusters [OF a b c, of env_ok]
    by (simp add: store_of_def)
qed

text \<open>
  C4. When the host-setup collaborator reports failure for the normalized address,
  \<^verbatim>\<open>create\<close> returns the empty dict, the collection is what it was, and the call has
  made no store write: setup runs before \<^verbatim>\<open>insert_one\<close>, so no record is left behind.
\<close>

theorem create_setup_failure_persists_nothing:
  assumes "\<not> setup_container_host E (detect_daemon_type E (normalize_daemon_url u))
              (normalize_daemon_url u)"
  shows "fst (create E name u cap ll lt ls ff sch ser s) = Inr [] \<and>
         col (snd (create E name u cap ll lt ls ff sch ser s)) = col s \<and>
         filter is_store_write (trace (snd (create E name u cap ll lt ls ff sch ser s))) =
           filter is_store_write (trace s)"
  using create_setup_fails_frame [OF assms] by simp

theorem create_setup_failure_persists_nothing_witness:
  "\<not> setup_container_host env_setup_fails
       (detect_daemon_type env_setup_fails (normalize_daemon_url ''10.0.0.1:2375''))
       (normalize_daemon_url ''10.0.0.1:2375'') \<and>
   fst (create env_setup_fails ''h'' ''10.0.0.1:2375'' 2 ''DEBUG'' ''local'' [] True
          (VStr ''false'') True (store_of [])) = Inr [] \<and>
   col (snd (create env_setup_fails ''h'' ''10.0.0.1:2375'' 2 ''DEBUG'' ''local'' [] True
          (VStr ''false'') True (store_of []))) = [] \<and>
   filter is_store_write
     (trace (snd (create env_setup_fails ''h'' ''10.0.0.1:2375'' 2 ''DEBUG'' ''local'' [] True
          (VStr ''false'') True (store_of [])))) = []"
proof -
  have a: "\<not> setup_container_host env_setup_fails
       (detect_daemon_type env_setup_fails (normalize_daemon_url ''10.0.0.1:2375''))
       (normalize_daemon_url ''10.0.0.1:2375'')"
    by (rule env_setup_fails_setup)
  show ?thesis
    using a create_setup_failure_persists_nothing [OF a, of "''h''" 2 "''DEBUG''" "''local''"
        "[]" True "VStr ''false''" True "store_of []"]
    by (simp add: store_of_def)
qed

text \<open>
  C5, as amended. Two \<^verbatim>\<open>create\<close> calls in a row whose addresses normalize to the same
  value, the first of which can succeed: no stored host has that normalized address yet,
  the host setup reports success, the driver's next ObjectId is new, and the store can
  encode the first call's values (its capacity, and every int inside its \<^verbatim>\<open>schedulable\<close>
  argument, fits in 8 bytes). Then the first returns a non-empty record, and the second,
  whatever its name, its other arguments and its collaborators, returns the empty dict
  after the one \<^verbatim>\<open>find_one\<close> by address and leaves the store as the first call left it.
\<close>

theorem create_twice_same_address:
  assumes "normalize_daemon_url uA = normalize_daemon_url uB"
    and "find_one [(''daemon_url'', VStr (normalize_daemon_url uA))] (col s) = None"
    and "setup_container_host E (detect_daemon_type E (normalize_daemon_url uA))
           (normalize_daemon_url uA)"
    and "object_id_fresh E s"
    and "- (2 ^ 63) \<le> capA \<and> capA < 2 ^ 63"
    and "bson_encodable schA"
  shows "\<exists>r s1. create E nameA uA capA llA ltA lsA ffA schA serA s = (Inr r, s1) \<and> r \<noteq> [] \<and>
           create E' nameB uB capB llB ltB lsB ffB schB serB s1 =
             (Inr [],
              s1\<lparr>trace := trace s1 @
                    [FindOne [(''daemon_url'', VStr (normalize_daemon_url uB))]]\<rparr>)"
proof -
  from create_success [OF assms(2,3,4,5,6), of nameA llA ltA lsA ffA serA]
  obtain doc s1 where c: "create E nameA uA capA llA ltA lsA ffA schA serA s =
        (Inr (serialize (Some doc)), s1)"
    and col1: "col s1 = col s @ [doc]"
    and url: "map_of doc ''daemon_url'' = Some (VStr (normalize_daemon_url uA))"
    by blast
  from url have ne: "doc \<noteq> []" by auto
  have "find_one [(''daemon_url'', VStr (normalize_daemon_url uB))] (col s1) = Some doc"
    unfolding col1 assms(1) [symmetric]
    by (rule find_one_appended [OF assms(2)], unfold matches_single, rule url)
  from create_duplicate [OF this] c serialize_nonempty [OF ne] show ?thesis
    by blast
qed

theorem create_twice_same_address_witness:
  "normalize_daemon_url ''10.0.0.1:2375'' = normalize_daemon_url ''tcp://10.0.0.1:2375'' \<and>
   find_one [(''daemon_url'', VStr (normalize_daemon_url ''10.0.0.1:2375''))]
     (col (store_of [])) = None \<and>
   setup_container_host env_ok
     (detect_daemon_type env_ok (normalize_daemon_url ''10.0.0.1:2375''))
     (normalize_daemon_url ''10.0.0.1:2375'') \<and>
   object_id_fresh env_ok (store_of []) \<and>
   (- (2 ^ 63) \<le> (2::int) \<and> (2::int) < 2 ^ 63) \<and>
   bson_encodable (VStr ''false'') \<and>
   (\<exists>r s1. create env_ok ''first'' ''10.0.0.1:2375'' 2 ''DEBUG'' ''local'' [] True
              (VStr ''false'') True (store_of []) = (Inr r, s1) \<and> r \<noteq> [] \<and>
            create env_ok ''second'' ''tcp://10.0.0.1:2375'' 1 ''DEBUG'' ''local'' [] False
              (VStr ''false'') True s1 =
              (Inr [],
               s1\<lparr>trace := trace s1 @
                  [FindOne [(''daemon_url'',
                             VStr (normalize_daemon_url ''tcp://10.0.0.1:2375''))]]\<rparr>))"
proof -
  have a: "normalize_daemon_url ''10.0.0.1:2375'' = normalize_daemon_url ''tcp://10.0.0.1:2375''"
    by (simp only: normalize_examples)
  have b: "find_one [(''daemon_url'', VStr (normalize_daemon_url ''10.0.0.1:2375''))]
     (col (store_of [])) = None"
    by (rule empty_store_facts)
  have c: "setup_container_host env_ok
     (detect_daemon_type env_ok (normalize_daemon_url ''10.0.0.1:2375''))
     (normalize_daemon_url ''10.0.0.1:2375'')"
    by (rule env_ok_setup)
  have d: "object_id_fresh env_ok (store_of [])"
    by (rule empty_store_facts)
  have e: "- (2 ^ 63) \<le> (2::int) \<and> (2::int) < 2 ^ 63" by simp
  have f: "bson_encodable (VStr ''false'')" by simp
  from a b c d e f
    create_twice_same_address [OF a b c d e f, where nameA = "''first''"
      and llA = "''DEBUG''" and ltA = "''local''" and lsA = "[]" and ffA = True
      and serA = True and E' = env_ok and nameB = "''second''"
      and capB = 1 and llB = "''DEBUG''" and ltB = "''local''" and lsB = "[]" and ffB = False
      and schB = "VStr ''false''" and serB = True]
  show ?thesis by (intro conjI) blast+
qed

text \<open>
  C5 as stated fails: the two addresses normalize to the same value, and the first call,
  whose host setup fails, returns the empty dict instead of a record.
\<close>

theorem create_twice_first_fails_counterexample:
  "normalize_daemon_url ''10.0.0.1:2375'' = normalize_daemon_url ''tcp://10.0.0.1:2375'' \<and>
   create_default env_setup_fails ''first'' ''10.0.0.1:2375'' (store_of []) =
     (Inr [],
      \<lparr>col = [], next_oid = 0,
       trace = [FindOne [(''daemon_url'', VStr ''tcp://10.0.0.1:2375'')],
                CheckDaemon ''tcp://10.0.0.1:2375'',
                DetectDaemonType ''tcp://10.0.0.1:2375'',
                SetupContainerHost ''docker'' ''tcp://10.0.0.1:2375'']\<rparr>)"
proof -
  have "create_default env_setup_fails ''first'' ''10.0.0.1:2375'' (store_of []) =
     (Inr [],
      (store_of [])\<lparr>trace := trace (store_of []) @
        [FindOne [(''daemon_url'', VStr (normalize_daemon_url ''10.0.0.1:2375''))],
         CheckDaemon (normalize_daemon_url ''10.0.0.1:2375''),
         DetectDaemonType (normalize_daemon_url ''10.0.0.1:2375''),
         SetupContainerHost
           (detect_daemon_type env_setup_fails (normalize_daemon_url ''10.0.0.1:2375''))
           (normalize_daemon_url ''10.0.0.1:2375'')]\<rparr>)"
    unfolding create_default_def
    by (rule create_setup_failure [OF empty_store_facts(1) env_setup_fails_setup])
  then show ?thesis
    by (simp add: normalize_examples store_of_def env_setup_fails_def env_ok_def)
qed

text \<open>
  C6. For an active stored host whose \<^verbatim>\<open>clusters\<close> list is at least as long as its
  capacity, \<^verbatim>\<open>fillup\<close> returns \<^verbatim>\<open>True\<close>; the calls it has made are the two reads of the
  host (the gate's and its own): no port request, no thread started.
\<close>

theorem fillup_at_capacity:
  assumes "find_one (id_filter i) (col s) = Some h"
    and "map_of h ''status'' = Some (VStr ''active'')"
    and "map_of h ''capacity'' = Some (VInt c)"
    and "map_of h ''clusters'' = Some (VList cs)"
    and "c \<le> int (length cs)"
  shows "fillup E i s =
           (Inr True, s\<lparr>trace := trace s @ [FindOne (id_filter i), FindOne (id_filter i)]\<rparr>)"
  by (rule fillup_full [OF assms])

theorem fillup_at_capacity_witness:
  "find_one (id_filter ''h1'')
     (col (store_of [host_doc ''h1'' ''active'' 2 [VStr ''c1'', VStr ''c2'']])) =
     Some (host_doc ''h1'' ''active'' 2 [VStr ''c1'', VStr ''c2'']) \<and>
   map_of (host_doc ''h1'' ''active'' 2 [VStr ''c1'', VStr ''c2'']) ''status'' =
     Some (VStr ''active'') \<and>
   map_of (host_doc ''h1'' ''active'' 2 [VStr ''c1'', VStr ''c2'']) ''capacity'' =
     Some (VInt 2) \<and>
   map_of (host_doc ''h1'' ''active'' 2 [VStr ''c1'', VStr ''c2'']) ''clusters'' =
     Some (VList [VStr ''c1'', VStr ''c2'']) \<and>
   (2::int) \<le> int (length [VStr ''c1'', VStr ''c2'']) \<and>
   fillup env_ok ''h1'' (store_of [host_doc ''h1'' ''active'' 2 [VStr ''c1'', VStr ''c2'']]) =
     (Inr True,
      \<lparr>col = [host_doc ''h1'' ''active'' 2 [VStr ''c1'', VStr ''c2'']], next_oid = 1,
       trace = [FindOne (id_filter ''h1''), FindOne (id_filter ''h1'')]\<rparr>)"
proof -
  have a: "find_one (id_filter ''h1'')
     (col (store_of [host_doc ''h1'' ''active'' 2 [VStr ''c1'', VStr ''c2'']])) =
     Some (host_doc ''h1'' ''active'' 2 [VStr ''c1'', VStr ''c2''])"
    by (rule example_find)
  have b: "map_of (host_doc ''h1'' ''active'' 2 [VStr ''c1'', VStr ''c2'']) ''status'' =
     Some (VStr ''active'')"
    by (rule host_doc_fields)
  have c: "map_of (host_doc ''h1'' ''active'' 2 [VStr ''c1'', VStr ''c2'']) ''capacity'' =
     Some (VInt 2)"
    by (rule host_doc_fields)
  have d: "map_of (host_doc ''h1'' ''active'' 2 [VStr ''c1'', VStr ''c2'']) ''clusters'' =
     Some (VList [VStr ''c1'', VStr ''c2''])"
    by (rule host_doc_fields)
  have e: "(2::int) \<le> int (length [VStr ''c1'', VStr ''c2''])" by simp
  show ?thesis
    using a b c d e fillup_at_capacity [OF a b c d e, of env_ok]
    by (simp add: store_of_def)
qed

text \<open>
  C7. For an active stored host whose \<^verbatim>\<open>clusters\<close> field is a list: with the empty list
  \<^verbatim>\<open>clean\<close> returns \<^verbatim>\<open>True\<close> after the two reads of the host and writes nothing; with a
  non-empty list it writes \<^verbatim>\<open>schedulable=False\<close>, then starts one delete thread per listed
  cluster id, in list order, then writes \<^verbatim>\<open>schedulable=True\<close> and returns \<^verbatim>\<open>True\<close>. The second
  write follows the last thread start directly: nothing waits for a delete to finish.
\<close>

theorem clean_dispatch_order:
  assumes "find_one (id_filter i) (col s) = Some h"
    and "map_of h ''status'' = Some (VStr ''active'')"
    and "map_of h ''clusters'' = Some (VList cs)"
  shows "clean i s =
           (Inr True,
            if cs = [] then
              s\<lparr>trace := trace s @ [FindOne (id_filter i), FindOne (id_filter i)]\<rparr>
            else
              s\<lparr>col := update_first (id_filter i) [(''schedulable'', VBool True)]
                        (update_first (id_filter i) [(''schedulable'', VBool False)] (col s)),
                trace := trace s @
                  [FindOne (id_filter i), FindOne (id_filter i),
                   FindOneAndUpdate (id_filter i) [(''schedulable'', VBool False)]] @
                  map (\<lambda>cid. StartThread (ClusterDelete cid)) cs @
                  [FindOneAndUpdate (id_filter i) [(''schedulable'', VBool True)]]\<rparr>)"
  by (rule clean_active [OF assms])

theorem clean_dispatch_order_witness:
  "find_one (id_filter ''h1'')
     (col (store_of [host_doc ''h1'' ''active'' 2 [VStr ''c1'', VStr ''c2'']])) =
     Some (host_doc ''h1'' ''active'' 2 [VStr ''c1'', VStr ''c2'']) \<and>
   map_of (host_doc ''h1'' ''active'' 2 [VStr ''c1'', VStr ''c2'']) ''status'' =
     Some (VStr ''active'') \<and>
   map_of (host_doc ''h1'' ''active'' 2 [VStr ''c1'', VStr ''c2'']) ''clusters'' =
     Some (VList [VStr ''c1'', VStr ''c2'']) \<and>
   clean ''h1'' (store_of [host_doc ''h1'' ''active'' 2 [VStr ''c1'', VStr ''c2'']]) =
     (Inr True,
      \<lparr>col = [AList.update ''schedulable'' (VBool True)
                (host_doc ''h1'' ''active'' 2 [VStr ''c1'', VStr ''c2''])],
       next_oid = 1,
       trace = [FindOne (id_filter ''h1''), FindOne (id_filter ''h1''),
                FindOneAndUpdate (id_filter ''h1'') [(''schedulable'', VBool False)],
                StartThread (ClusterDelete (VStr ''c1'')),
                StartThread (ClusterDelete (VStr ''c2'')),
                FindOneAndUpdate (id_filter ''h1'') [(''schedulable'', VBool True)]]\<rparr>) \<and>
   find_one (id_filter ''h2'') (col (store_of [host_doc ''h2'' ''active'' 2 []])) =
     Some (host_doc ''h2'' ''active'' 2 []) \<and>
   clean ''h2'' (store_of [host_doc ''h2'' ''active'' 2 []]) =
     (Inr True,
      \<lparr>col = [host_doc ''h2'' ''active'' 2 []], next_oid = 1,
       trace = [FindOne (id_filter ''h2''), FindOne (id_filter ''h2'')]\<rparr>)"
proof -
  have a: "find_one (id_filter ''h1'')
     (col (store_of [host_doc ''h1'' ''active'' 2 [VStr ''c1'', VStr ''c2'']])) =
     Some (host_doc ''h1'' ''active'' 2 [VStr ''c1'', VStr ''c2''])"
    by (rule example_find)
  have b: "map_of (host_doc ''h1'' ''active'' 2 [VStr ''c1'', VStr ''c2'']) ''status'' =
     Some (VStr ''active'')"
    by (rule host_doc_fields)
  have c: "map_of (host_doc ''h1'' ''active'' 2 [VStr ''c1'', VStr ''c2'']) ''clusters'' =
     Some (VList [VStr ''c1'', VStr ''c2''])"
    by (rule host_doc_fields)
  have a': "find_one (id_filter ''h2'') (col (store_of [host_doc ''h2'' ''active'' 2 []])) =
     Some (host_doc ''h2'' ''active'' 2 [])"
    by (rule example_find)
  have m: "map_of (host_doc ''h1'' ''active'' 2 [VStr ''c1'', VStr ''c2'']) ''id'' =
     Some (VStr ''h1'')"
    by (simp add: host_doc_def)
  show ?thesis
    using a b c a' clean_dispatch_order [OF a b c]
      clean_dispatch_order [OF a' host_doc_fields(1) host_doc_fields(3)]
    by (simp add: store_of_def matches_single m update_conv')
qed

text \<open>
  C8. \<^verbatim>\<open>delete(id)\<close> returns \<^verbatim>\<open>False\<close> after the one read, the store untouched, when no
  host has that id or when the host's \<^verbatim>\<open>clusters\<close> list is non-empty. When the host is
  there with an empty list, it calls the daemon-side cleanup with the host's address,
  then \<^verbatim>\<open>delete_one\<close>, which removes that record, and returns \<^verbatim>\<open>True\<close>.
\<close>

theorem delete_guarded:
  "(find_one (id_filter i) (col s) = None \<longrightarrow>
      delete i s = (False, s\<lparr>trace := trace s @ [FindOne (id_filter i)]\<rparr>)) \<and>
   (\<forall>h cs. find_one (id_filter i) (col s) = Some h \<and>
            map_of h ''clusters'' = Some (VList cs) \<and> cs \<noteq> [] \<longrightarrow>
      delete i s = (False, s\<lparr>trace := trace s @ [FindOne (id_filter i)]\<rparr>)) \<and>
   (\<forall>h. find_one (id_filter i) (col s) = Some h \<and>
         map_of h ''clusters'' = Some (VList []) \<longrightarrow>
      delete i s =
        (True,
         s\<lparr>col := remove1 h (col s),
           trace := trace s @
             [FindOne (id_filter i),
              CleanupContainerHost (dict_get_default h ''daemon_url'' (VStr [])),
              DeleteOne (id_filter i)]\<rparr>))"
  by (auto simp: delete_missing delete_found)

theorem delete_guarded_witness:
  "find_one (id_filter ''h9'') (col (store_of [host_doc ''h1'' ''active'' 2 []])) = None \<and>
   delete ''h9'' (store_of [host_doc ''h1'' ''active'' 2 []]) =
     (False, \<lparr>col = [host_doc ''h1'' ''active'' 2 []], next_oid = 1,
              trace = [FindOne (id_filter ''h9'')]\<rparr>) \<and>
   find_one (id_filter ''h1'') (col (store_of [host_doc ''h1'' ''active'' 2 [VStr ''c1'']])) =
     Some (host_doc ''h1'' ''active'' 2 [VStr ''c1'']) \<and>
   map_of (host_doc ''h1'' ''active'' 2 [VStr ''c1'']) ''clusters'' = Some (VList [VStr ''c1'']) \<and>
   delete ''h1'' (store_of [host_doc ''h1'' ''active'' 2 [VStr ''c1'']]) =
     (False, \<lparr>col = [host_doc ''h1'' ''active'' 2 [VStr ''c1'']], next_oid = 1,
              trace = [FindOne (id_filter ''h1'')]\<rparr>) \<and>
   find_one (id_filter ''h1'') (col (store_of [host_doc ''h1'' ''active'' 2 []])) =
     Some (host_doc ''h1'' ''active'' 2 []) \<and>
   map_of (host_doc ''h1'' ''active'' 2 []) ''clusters'' = Some (VList []) \<and>
   delete ''h1'' (store_of [host_doc ''h1'' ''active'' 2 []]) =
     (True, \<lparr>col = [], next_oid = 1,
             trace = [FindOne (id_filter ''h1''),
                      CleanupContainerHost (VStr ''tcp://10.0.0.1:2375''),
                      DeleteOne (id_filter ''h1'')]\<rparr>)"
proof -
  have a: "find_one (id_filter ''h9'') (col (store_of [host_doc ''h1'' ''active'' 2 []])) = None"
    by (simp add: example_missing)
  have b: "find_one (id_filter ''h1'')
      (col (store_of [host_doc ''h1'' ''active'' 2 [VStr ''c1'']])) =
     Some (host_doc ''h1'' ''active'' 2 [VStr ''c1''])"
    by (rule example_find)
  have c: "map_of (host_doc ''h1'' ''active'' 2 [VStr ''c1'']) ''clusters'' =
     Some (VList [VStr ''c1''])"
    by (rule host_doc_fields)
  have d: "find_one (id_filter ''h1'') (col (store_of [host_doc ''h1'' ''active'' 2 []])) =
     Some (host_doc ''h1'' ''active'' 2 [])"
    by (rule example_find)
  have e: "map_of (host_doc ''h1'' ''active'' 2 []) ''clusters'' = Some (VList [])"
    by (rule host_doc_fields)
  show ?thesis
    using a b c d e
      delete_guarded [of "''h9''" "store_of [host_doc ''h1'' ''active'' 2 []]"]
      delete_guarded [of "''h1''" "store_of [host_doc ''h1'' ''active'' 2 [VStr ''c1'']]"]
      delete_guarded [of "''h1''" "store_of [host_doc ''h1'' ''active'' 2 []]"]
    by (simp add: store_of_def dict_get_default_def host_doc_fields)
qed

text \<open>
  C9. The rule "prepend \<^verbatim>\<open>tcp://\<close> unless the address starts with it" is idempotent, and
  on an address with no \<^verbatim>\<open>://\<close> in it it prepends the scheme once. A \<^verbatim>\<open>create\<close> that
  stores a record (the address is not stored yet, the host setup succeeds, the next
  ObjectId is new, and the capacity and every int inside \<^verbatim>\<open>schedulable\<close> fit in 8 bytes,
  so that the store can encode them) stores the address under this rule; \<^verbatim>\<open>update\<close>
  applies the same rule to the \<^verbatim>\<open>daemon_url\<close> entry of the dict it is given, for any
  existing host.
\<close>

theorem daemon_url_normalization:
  assumes "find_one [(''daemon_url'', VStr (normalize_daemon_url u))] (col s) = None"
    and "setup_container_host E (detect_daemon_type E (normalize_daemon_url u))
           (normalize_daemon_url u)"
    and "object_id_fresh E s"
    and "- (2 ^ 63) \<le> cap \<and> cap < 2 ^ 63"
    and "bson_encodable sch"
    and "find_one (id_filter i) (col t) = Some h"
    and "map_of d ''daemon_url'' = Some (VStr u')"
  shows "normalize_daemon_url (normalize_daemon_url u) = normalize_daemon_url u \<and>
         (\<not> str_contains ''://'' u \<longrightarrow> normalize_daemon_url u = ''tcp://'' @ u) \<and>
         (\<exists>doc. col (snd (create E name u cap ll lt ls ff sch ser s)) = col s @ [doc] \<and>
                map_of doc ''daemon_url'' = Some (VStr (normalize_daemon_url u))) \<and>
         map_of (fst (snd (update E' i d t))) ''daemon_url'' =
           Some (VStr (normalize_daemon_url u'))"
proof -
  from create_success [OF assms(1,2,3,4,5), of name ll lt ls ff ser]
  obtain doc s' where "create E name u cap ll lt ls ff sch ser s =
        (Inr (serialize (Some doc)), s')"
    and "col s' = col s @ [doc]"
    and "map_of doc ''daemon_url'' = Some (VStr (normalize_daemon_url u))"
    by blast
  then have "\<exists>doc. col (snd (create E name u cap ll lt ls ff sch ser s)) = col s @ [doc] \<and>
                map_of doc ''daemon_url'' = Some (VStr (normalize_daemon_url u))"
    by auto
  moreover have "\<not> str_contains ''://'' u \<longrightarrow> normalize_daemon_url u = ''tcp://'' @ u"
  proof
    assume "\<not> str_contains ''://'' u"
    then have "\<not> startswith u ''tcp://''"
      using tcp_prefix_has_scheme by blast
    then show "normalize_daemon_url u = ''tcp://'' @ u"
      by (simp add: normalize_daemon_url_def)
  qed
  ultimately show ?thesis
    using normalize_idem [of u] update_normalizes_dict [OF assms(6,7), of E'] by blast
qed

theorem daemon_url_normalization_witness:
  "find_one [(''daemon_url'', VStr (normalize_daemon_url ''10.0.0.1:2375''))]
     (col (store_of [])) = None \<and>
   setup_container_host env_ok
     (detect_daemon_type env_ok (normalize_daemon_url ''10.0.0.1:2375''))
     (normalize_daemon_url ''10.0.0.1:2375'') \<and>
   object_id_fresh env_ok (store_of []) \<and>
   (- (2 ^ 63) \<le> (1::int) \<and> (1::int) < 2 ^ 63) \<and>
   bson_encodable (VStr ''false'') \<and>
   find_one (id_filter ''h1'') (col (store_of [host_doc ''h1'' ''active'' 2 []])) =
     Some (host_doc ''h1'' ''active'' 2 []) \<and>
   map_of [(''daemon_url'', VStr ''10.0.0.2:2375'')] ''daemon_url'' =
     Some (VStr ''10.0.0.2:2375'') \<and>
   \<not> str_contains ''://'' ''10.0.0.1:2375'' \<and>
   normalize_daemon_url (normalize_daemon_url ''10.0.0.1:2375'') =
     normalize_daemon_url ''10.0.0.1:2375'' \<and>
   normalize_daemon_url ''10.0.0.1:2375'' = ''tcp://10.0.0.1:2375'' \<and>
   (\<exists>doc. col (snd (create env_ok ''h'' ''10.0.0.1:2375'' 1 ''DEBUG'' ''local'' [] False
                     (VStr ''false'') True (store_of []))) = col (store_of []) @ [doc] \<and>
          map_of doc ''daemon_url'' = Some (VStr ''tcp://10.0.0.1:2375'')) \<and>
   map_of (fst (snd (update env_ok ''h1'' [(''daemon_url'', VStr ''10.0.0.2:2375'')]
                       (store_of [host_doc ''h1'' ''active'' 2 []])))) ''daemon_url'' =
     Some (VStr ''tcp://10.0.0.2:2375'')"
proof -
  have a: "find_one [(''daemon_url'', VStr (normalize_daemon_url ''10.0.0.1:2375''))]
     (col (store_of [])) = None"
    by (rule empty_store_facts)
  have b: "setup_container_host env_ok
     (detect_daemon_type env_ok (normalize_daemon_url ''10.0.0.1:2375''))
     (normalize_daemon_url ''10.0.0.1:2375'')"
    by (rule env_ok_setup)
  have c: "object_id_fresh env_ok (store_of [])"
    by (rule empty_store_facts)
  have d: "find_one (id_filter ''h1'') (col (store_of [host_doc ''h1'' ''active'' 2 []])) =
     Some (host_doc ''h1'' ''active'' 2 [])"
    by (rule example_find)
  have e: "map_of [(''daemon_url'', VStr ''10.0.0.2:2375'')] ''daemon_url'' =
     Some (VStr ''10.0.0.2:2375'')"
    by simp
  have f: "\<not> str_contains ''://'' ''10.0.0.1:2375''"
    by (simp add: startswith_def)
  have p: "- (2 ^ 63) \<le> (1::int) \<and> (1::int) < 2 ^ 63" by simp
  have q: "bson_encodable (VStr ''false'')" by simp
  have n: "normalize_daemon_url ''10.0.0.2:2375'' = ''tcp://10.0.0.2:2375''"
    by (simp add: normalize_daemon_url_def startswith_def)
  from daemon_url_normalization [OF a b c p q d e, where name = "''h''"
      and ll = "''DEBUG''" and lt = "''local''" and ls = "[]" and ff = False
      and ser = True and E' = env_ok] f
  have "normalize_daemon_url (normalize_daemon_url ''10.0.0.1:2375'') =
          normalize_daemon_url ''10.0.0.1:2375''"
    and "normalize_daemon_url ''10.0.0.1:2375'' = ''tcp://'' @ ''10.0.0.1:2375''"
    and "\<exists>doc. col (snd (create env_ok ''h'' ''10.0.0.1:2375'' 1 ''DEBUG'' ''local'' [] False
                     (VStr ''false'') True (store_of []))) = col (store_of []) @ [doc] \<and>
          map_of doc ''daemon_url'' = Some (VStr (normalize_daemon_url ''10.0.0.1:2375''))"
    and "map_of (fst (snd (update env_ok ''h1'' [(''daemon_url'', VStr ''10.0.0.2:2375'')]
                       (store_of [host_doc ''h1'' ''active'' 2 []])))) ''daemon_url'' =
     Some (VStr (normalize_daemon_url ''10.0.0.2:2375''))"
    by blast+
  with a b c d e f p q show ?thesis
    by (simp only: normalize_examples n append.simps simp_thms)
qed

text \<open>
  C10. \<^verbatim>\<open>create\<close> stores its \<^verbatim>\<open>schedulable\<close> argument as it is, whatever value it is,
  as long as the store can encode it (every int inside it, and the capacity, fits in 8
  bytes): the record it appends holds exactly that value. With the defaults of the signature the
  stored value is the string \<^verbatim>\<open>"false"\<close>, which is a true value in Python. \<^verbatim>\<open>clean\<close>, on
  an active host with clusters, writes booleans to the same field: its two store writes set
  \<^verbatim>\<open>schedulable\<close> to \<^verbatim>\<open>False\<close> and then to \<^verbatim>\<open>True\<close>.
\<close>

theorem schedulable_stored_as_passed:
  assumes "find_one [(''daemon_url'', VStr (normalize_daemon_url u))] (col s) = None"
    and "setup_container_host E (detect_daemon_type E (normalize_daemon_url u))
           (normalize_daemon_url u)"
    and "object_id_fresh E s"
    and "- (2 ^ 63) \<le> cap \<and> cap < 2 ^ 63"
    and "bson_encodable sch"
    and "find_one (id_filter i) (col t) = Some h"
    and "map_of h ''status'' = Some (VStr ''active'')"
    and "map_of h ''clusters'' = Some (VList cs)"
    and "cs \<noteq> []"
  shows "(\<exists>doc. col (snd (create E name u cap ll lt ls ff sch ser s)) = col s @ [doc] \<and>
                map_of doc ''schedulable'' = Some sch) \<and>
         (\<exists>doc. col (snd (create_default E name u s)) = col s @ [doc] \<and>
                map_of doc ''schedulable'' = Some (VStr ''false'')) \<and>
         py_truthy (VStr ''false'') \<and>
         filter is_store_write (trace (snd (clean i t))) =
           filter is_store_write (trace t) @
             [FindOneAndUpdate (id_filter i) [(''schedulable'', VBool False)],
              FindOneAndUpdate (id_filter i) [(''schedulable'', VBool True)]]"
proof -
  have stored: "\<exists>doc. col (snd (create E name u c ll lt ls ff v ser s)) = col s @ [doc] \<and>
                map_of doc ''schedulable'' = Some v"
    if "- (2 ^ 63) \<le> c \<and> c < 2 ^ 63" and "bson_encodable v" for c ll lt ls ff v ser
  proof -
    from create_success [OF assms(1,2,3) that, of name ll lt ls ff ser]
    obtain doc s' where "create E name u c ll lt ls ff v ser s =
          (Inr (serialize (Some doc)), s')"
      and "col s' = col s @ [doc]"
      and "map_of doc ''schedulable'' = Some v"
      by blast
    then show ?thesis by auto
  qed
  have dflt: "- (2 ^ 63) \<le> (1::int) \<and> (1::int) < 2 ^ 63" "bson_encodable (VStr ''false'')"
    by simp_all
  from stored [OF assms(4,5), of ll lt ls ff ser]
    stored [OF dflt, of "LOGGING_LEVEL_CLUSTERS_0 E" "LOG_TYPES_0 E" "[]" False True]
    clean_store_writes [OF assms(6,7,8,9)]
  show ?thesis
    by (simp add: create_default_def)
qed

theorem schedulable_stored_as_passed_witness:
  "find_one [(''daemon_url'', VStr (normalize_daemon_url ''10.0.0.1:2375''))]
     (col (store_of [])) = None \<and>
   setup_container_host env_ok
     (detect_daemon_type env_ok (normalize_daemon_url ''10.0.0.1:2375''))
     (normalize_daemon_url ''10.0.0.1:2375'') \<and>
   object_id_fresh env_ok (store_of []) \<and>
   (- (2 ^ 63) \<le> (1::int) \<and> (1::int) < 2 ^ 63) \<and>
   bson_encodable (VInt 7) \<and>
   find_one (id_filter ''h1'')
     (col (store_of [host_doc ''h1'' ''active'' 2 [VStr ''c1'', VStr ''c2'']])) =
     Some (host_doc ''h1'' ''active'' 2 [VStr ''c1'', VStr ''c2'']) \<and>
   map_of (host_doc ''h1'' ''active'' 2 [VStr ''c1'', VStr ''c2'']) ''status'' =
     Some (VStr ''active'') \<and>
   map_of (host_doc ''h1'' ''active'' 2 [VStr ''c1'', VStr ''c2'']) ''clusters'' =
     Some (VList [VStr ''c1'', VStr ''c2'']) \<and>
   [VStr ''c1'', VStr ''c2''] \<noteq> [] \<and>
   (\<exists>doc. col (snd (create env_ok ''h'' ''10.0.0.1:2375'' 1 ''DEBUG'' ''local'' [] False
                     (VInt 7) True (store_of []))) = col (store_of []) @ [doc] \<and>
          map_of doc ''schedulable'' = Some (VInt 7)) \<and>
   (\<exists>doc. col (snd (create_default env_ok ''h'' ''10.0.0.1:2375'' (store_of []))) =
            col (store_of []) @ [doc] \<and>
          map_of doc ''schedulable'' = Some (VStr ''false'')) \<and>
   py_truthy (VStr ''false'') \<and>
   filter is_store_write
     (trace (snd (clean ''h1''
        (store_of [host_doc ''h1'' ''active'' 2 [VStr ''c1'', VStr ''c2'']])))) =
     filter is_store_write
       (trace (store_of [host_doc ''h1'' ''active'' 2 [VStr ''c1'', VStr ''c2'']])) @
       [FindOneAndUpdate (id_filter ''h1'') [(''schedulable'', VBool False)],
        FindOneAndUpdate (id_filter ''h1'') [(''schedulable'', VBool True)]]"
proof -
  have a: "find_one [(''daemon_url'', VStr (normalize_daemon_url ''10.0.0.1:2375''))]
     (col (store_of [])) = None"
    by (rule empty_store_facts)
  have b: "setup_container_host env_ok
     (detect_daemon_type env_ok (normalize_daemon_url ''10.0.0.1:2375''))
     (normalize_daemon_url ''10.0.0.1:2375'')"
    by (rule env_ok_setup)
  have c: "object_id_fresh env_ok (store_of [])"
    by (rule empty_store_facts)
  have d: "find_one (id_filter ''h1'')
     (col (store_of [host_doc ''h1'' ''active'' 2 [VStr ''c1'', VStr ''c2'']])) =
     Some (host_doc ''h1'' ''active'' 2 [VStr ''c1'', VStr ''c2''])"
    by (rule example_find)
  have e: "map_of (host_doc ''h1'' ''active'' 2 [VStr ''c1'', VStr ''c2'']) ''status'' =
     Some (VStr ''active'')"
    by (rule host_doc_fields)
  have f: "map_of (host_doc ''h1'' ''active'' 2 [VStr ''c1'', VStr ''c2'']) ''clusters'' =
     Some (VList [VStr ''c1'', VStr ''c2''])"
    by (rule host_doc_fields)
  have g: "[VStr ''c1'', VStr ''c2''] \<noteq> []" by simp
  have p: "- (2 ^ 63) \<le> (1::int) \<and> (1::int) < 2 ^ 63" by simp
  have q: "bson_encodable (VInt 7)" by simp
  from a b c p q d e f g
    schedulable_stored_as_passed [OF a b c p q d e f g, where name = "''h''"
      and ll = "''DEBUG''" and lt = "''local''" and ls = "[]" and ff = False
      and ser = True]
  show ?thesis by (intro conjI) blast+
qed

end
